theory Spec2Isabelle
  imports Main "HOL-Library.Word"
begin

section \<open>The active stream of the proxy (pkg/proxy/downstream.go)\<close>

text \<open>
  The per-request engine of the proxy is a Go struct \<^verbatim>\<open>activeStream\<close> whose methods are
  called by the downstream codec, by the upstream request and by two timers, all on one
  execution context. Each method is embedded as a function from the state before the call
  to an outcome: the state after the call, or a panic together with the state in which it
  happened. Pointers and interfaces that may be nil are options, and every dereference of
  the source is a case distinction of the model.

  What the methods do to their collaborators (the two codecs, the timers, the stats, the
  request info, the filters) is recorded in order in a trace of calls, the last field of
  the state. Error-log lines and wall-clock values are left out of the trace.
\<close>

subsection \<open>Collaborators\<close>

type_synonym headers = "string \<rightharpoonup> string"

type_synonym StreamResetReason = string

datatype RetryCheckStatus = NoRetry | ShouldRetry | RetryOverflow

datatype UpstreamResetType = UpstreamReset | UpstreamGlobalTimeout | UpstreamPerTryTimeout

datatype Protocol = SofaRpc | Http2 | Http1 | OtherProtocol string

datatype ResponseFlag =
    NoRouteFound
  | NoHealthyUpstream
  | UpstreamRequestTimeout
  | UpstreamOverflow
  | ReasonFlag StreamResetReason

datatype error = NilPointerDereference

text \<open>
  A timer remembers the method it fires and its duration (a \<^verbatim>\<open>time.Duration\<close>, an
  \<^verbatim>\<open>int64\<close> of nanoseconds).
\<close>

datatype timerCallback = PerTryTimeoutCallback | ResponseTimeoutCallback

datatype timer = Timer timerCallback "64 word"

record ProxyTimeout =
  GlobalTimeout :: "64 word"
  TryTimeout :: "64 word"

text \<open>
  Of the retry state the stream reads the flag \<^verbatim>\<open>retryOn\<close> and calls \<^verbatim>\<open>retry\<close> and
  \<^verbatim>\<open>reset\<close>. The second field stands for the resume function that \<^verbatim>\<open>retry\<close> has
  scheduled and that has not run yet.
\<close>

record retryState =
  retryOn :: bool
  retryScheduled :: bool

text \<open>
  One attempt against an upstream host. The encoder and the host are nil until the
  connection pool has answered.
\<close>

record upstreamRequest =
  connPool :: nat
  requestEncoder :: "nat option"
  host :: "string option"

record routeRule =
  ClusterName :: string

record route =
  RouteRule :: "routeRule option"

text \<open>
  The calls the stream makes on its collaborators. A buffer handed to the upstream is
  recorded with its address and with the bytes it holds at the time of the call.
\<close>

datatype statsScope = ProxyStats | ListenerStats

datatype event =
    AddEventListener
  | DownstreamRequestTotalInc statsScope
  | DownstreamRequestActiveInc statsScope
  | DownstreamRequestActiveDec statsScope
  | DownstreamRequestResetInc statsScope
  | ClusterUpstreamRequestTimeoutInc
  | HostUpstreamRequestTimeoutInc string
  | SetResponseFlag ResponseFlag
  | SetRouteEntry routeRule
  | SetDownstreamLocalAddress
  | SetDownstreamRemoteAddress
  | SetRequestReceivedDuration
  | SetResponseReceivedDuration
  | TimerStart timer
  | TimerStop timer
  | UpstreamEncodeHeaders "headers option" bool
  | UpstreamEncodeData nat "8 word list" bool
  | UpstreamEncodeTrailers "headers option"
  | UpstreamResetStream
  | DownstreamEncodeHeaders "headers option" bool
  | DownstreamEncodeData nat "8 word list" bool
  | DownstreamEncodeTrailers "headers option"
  | DownstreamResetStream StreamResetReason
  | EncoderFilterOnDestroy nat
  | DecoderFilterOnDestroy nat
  | AccessLog "headers option" "headers option"
  | DeleteActiveStream

subsection \<open>The stream\<close>

text \<open>
  The fields of \<^verbatim>\<open>activeStream\<close> that the modelled methods read or write, under the
  names of the source. \<^verbatim>\<open>cluster\<close> is the cluster info, of which the stream uses the
  name; \<^verbatim>\<open>bytesReceived\<close> and \<^verbatim>\<open>bytesSent\<close> are the two counters of the request info.
  \<^verbatim>\<open>downstreamReqDataBuf\<close> is the address of a buffer, and the two filter slices hold
  the handles of the filters.
\<close>

record activeStream =
  route :: "route option"
  cluster :: "string option"
  timeout :: "ProxyTimeout option"
  retryState :: "retryState option"
  bytesReceived :: "64 word"
  bytesSent :: "64 word"
  responseEncoder :: "nat option"
  upstreamRequest :: "upstreamRequest option"
  perRetryTimer :: "timer option"
  responseTimer :: "timer option"
  downstreamReqHeaders :: "headers option"
  downstreamReqDataBuf :: "nat option"
  downstreamReqTrailers :: "headers option"
  downstreamRespHeaders :: "headers option"
  downstreamResponseStarted :: bool
  upstreamRequestSent :: bool
  downstreamRecvDone :: bool
  localProcessDone :: bool
  encoderFilters :: "nat list"
  decoderFilters :: "nat list"

text \<open>
  The state of a run: the stream, the buffers (a store from addresses to bytes, with the
  next free address), and the trace.
\<close>

record proxyState = activeStream +
  ioBuffers :: "nat \<Rightarrow> 8 word list"
  nextBuffer :: nat
  trace :: "event list"

datatype ('a, 's) outcome = Done 'a 's | Panic error 's

definition andThen ::
  "('a, 's) outcome \<Rightarrow> ('a \<Rightarrow> 's \<Rightarrow> ('b, 's) outcome) \<Rightarrow> ('b, 's) outcome" where
  "andThen r f = (case r of Done a s \<Rightarrow> f a s | Panic e s \<Rightarrow> Panic e s)"

fun stateOf :: "('a, 's) outcome \<Rightarrow> 's" where
  "stateOf (Done a s) = s"
| "stateOf (Panic e s) = s"

fun panicked :: "('a, 's) outcome \<Rightarrow> bool" where
  "panicked (Done a s) = False"
| "panicked (Panic e s) = True"

definition emit :: "event \<Rightarrow> proxyState \<Rightarrow> proxyState" where
  "emit e s = s\<lparr>trace := trace s @ [e]\<rparr>"

subsection \<open>Buffers (pkg/network/buffer)\<close>

text \<open>
  Modelled from the spec: the buffer package is not among the sources. \<^verbatim>\<open>Clone\<close> gives
  a new buffer with the same bytes, \<^verbatim>\<open>NewIoBuffer\<close> a new empty one, and
  \<^verbatim>\<open>ReadFrom\<close> moves the bytes of the source to the end of the destination, as an
  \<^verbatim>\<open>io.ReaderFrom\<close> does.
\<close>

definition Clone :: "nat \<Rightarrow> proxyState \<Rightarrow> nat \<times> proxyState" where
  "Clone b s =
     (nextBuffer s,
      s\<lparr>ioBuffers := (ioBuffers s)(nextBuffer s := ioBuffers s b),
        nextBuffer := Suc (nextBuffer s)\<rparr>)"

definition NewIoBuffer :: "proxyState \<Rightarrow> nat \<times> proxyState" where
  "NewIoBuffer s =
     (nextBuffer s,
      s\<lparr>ioBuffers := (ioBuffers s)(nextBuffer s := []), nextBuffer := Suc (nextBuffer s)\<rparr>)"

definition ReadFrom :: "nat \<Rightarrow> nat \<Rightarrow> proxyState \<Rightarrow> proxyState" where
  "ReadFrom dst src s =
     s\<lparr>ioBuffers := (ioBuffers s)(dst := ioBuffers s dst @ ioBuffers s src, src := [])\<rparr>"

subsection \<open>Retry state and upstream request (retrystate.go, upstream.go)\<close>

text \<open>
  Modelled from the spec: \<^verbatim>\<open>retryState.reset\<close> is not among the sources. It clears the
  pending back-off timer and invalidates the scheduled callback.
\<close>

definition retryState_reset :: "retryState \<Rightarrow> retryState" where
  "retryState_reset r = r\<lparr>retryScheduled := False\<rparr>"

text \<open>
  Modelled from the spec: \<^verbatim>\<open>upstreamRequest.resetStream\<close> is not among the sources. It
  resets the upstream stream of the attempt; the model records the call. The method reads
  the fields of its receiver, so a call through a nil pointer is a nil dereference.
\<close>

definition upstreamRequest_resetStream :: "proxyState \<Rightarrow> (unit, proxyState) outcome" where
  "upstreamRequest_resetStream s =
     (case upstreamRequest s of
        None \<Rightarrow> Panic NilPointerDereference s
      | Some u \<Rightarrow> Done () (emit UpstreamResetStream s))"


text \<open>
  Modelled from the spec: the three \<^verbatim>\<open>encode\<close> methods of \<^verbatim>\<open>upstreamRequest\<close> are not
  among the sources. Each forwards the event to the upstream through the pooled encoder;
  the model records the call, and what the pool and the upstream codec answer arrives
  later through the \<^verbatim>\<open>onUpstream\<close> methods of the stream. A call through a nil pointer is
  a nil dereference.
\<close>

definition upstreamRequest_encodeHeaders ::
  "headers option \<Rightarrow> bool \<Rightarrow> proxyState \<Rightarrow> (unit, proxyState) outcome" where
  "upstreamRequest_encodeHeaders hs end_stream s =
     (case upstreamRequest s of
        None \<Rightarrow> Panic NilPointerDereference s
      | Some u \<Rightarrow> Done () (emit (UpstreamEncodeHeaders hs end_stream) s))"

definition upstreamRequest_encodeData ::
  "nat \<Rightarrow> bool \<Rightarrow> proxyState \<Rightarrow> (unit, proxyState) outcome" where
  "upstreamRequest_encodeData b end_stream s =
     (case upstreamRequest s of
        None \<Rightarrow> Panic NilPointerDereference s
      | Some u \<Rightarrow> Done () (emit (UpstreamEncodeData b (ioBuffers s b) end_stream) s))"

definition upstreamRequest_encodeTrailers ::
  "headers option \<Rightarrow> proxyState \<Rightarrow> (unit, proxyState) outcome" where
  "upstreamRequest_encodeTrailers ts s =
     (case upstreamRequest s of
        None \<Rightarrow> Panic NilPointerDereference s
      | Some u \<Rightarrow> Done () (emit (UpstreamEncodeTrailers ts) s))"

subsection \<open>What the stream is given\<close>

text \<open>
  The constants of \<^verbatim>\<open>pkg/types\<close>, the configuration of the proxy and the answers of the
  router, the cluster manager, the retry policy and the filter chains are not among the
  sources; the methods take them as a parameter. A filter chain is given by its verdict:
  \<^term>\<open>True\<close> when a filter has stopped the traversal, as the source's helpers return it.
  The decoder chain for data is a method of the stream that may keep the data of an event
  it stops in the stream, so it is given with the state in which it leaves the stream,
  about which nothing is assumed. \<^verbatim>\<open>retryCheck\<close> is the verdict of
  \<^verbatim>\<open>retryState.retry\<close>.
\<close>

record env =
  HeaderStatus :: string
  CodecException :: string
  DeserializeException :: string
  StreamLocalReset :: StreamResetReason
  RouterUnavailableCode :: int
  NoHealthUpstreamCode :: int
  CodecExceptionCode :: int
  DeserialExceptionCode :: int
  UnknownCode :: int
  TimeoutExceptionCode :: int
  UpstreamProtocol :: Protocol
  accessLogs :: nat
  Route :: "headers option \<Rightarrow> int \<Rightarrow> route option"
  clusterManager_Get :: "string \<Rightarrow> string option"
  SofaRpcConnPoolForCluster :: "string \<Rightarrow> bool \<Rightarrow> nat option"
  HttpConnPoolForCluster :: "string \<Rightarrow> Protocol \<Rightarrow> bool \<Rightarrow> nat option"
  parseProxyTimeout :: "route \<Rightarrow> headers option \<Rightarrow> ProxyTimeout option"
  newRetryState :: "routeRule \<Rightarrow> headers option \<Rightarrow> string option \<Rightarrow> retryState option"
  retryCheck :: "retryState \<Rightarrow> headers option \<Rightarrow> StreamResetReason \<Rightarrow> RetryCheckStatus"
  decodeHeaderFilters :: "nat option \<Rightarrow> headers option \<Rightarrow> bool \<Rightarrow> bool"
  decodeDataFilters :: "nat option \<Rightarrow> nat \<Rightarrow> bool \<Rightarrow> proxyState \<Rightarrow> bool \<times> proxyState"
  decodeTrailersFilters :: "nat option \<Rightarrow> headers option \<Rightarrow> bool"
  encodeHeaderFilters :: "nat option \<Rightarrow> headers option \<Rightarrow> bool \<Rightarrow> bool"
  encodeDataFilters :: "nat option \<Rightarrow> nat \<Rightarrow> bool \<Rightarrow> bool"
  encodeTrailersFilters :: "nat option \<Rightarrow> headers option \<Rightarrow> bool"

text \<open>
  Modelled from the spec: \<^verbatim>\<open>retryState.retry\<close> is not among the sources. It returns its
  verdict, and with \<^verbatim>\<open>ShouldRetry\<close> it has scheduled the resume function.
\<close>

definition retry ::
  "env \<Rightarrow> retryState \<Rightarrow> headers option \<Rightarrow> StreamResetReason \<Rightarrow> RetryCheckStatus \<times> retryState" where
  "retry env r hs reason =
     (let v = retryCheck env r hs reason
      in (v, if v = ShouldRetry then r\<lparr>retryScheduled := True\<rparr> else r))"

text \<open>\<^verbatim>\<open>strconv.Itoa\<close>: the decimal digits of an integer, with a sign when it is negative.\<close>

fun decimal :: "nat \<Rightarrow> string" where
  "decimal n =
     (if n < 10 then [char_of (48 + n)] else decimal (n div 10) @ [char_of (48 + n mod 10)])"

declare decimal.simps [simp del]

definition Itoa :: "int \<Rightarrow> string" where
  "Itoa i = (if i < 0 then CHR ''-'' # decimal (nat (- i)) else decimal (nat i))"

definition timer_stop :: "timer \<Rightarrow> proxyState \<Rightarrow> proxyState" where
  "timer_stop t s = emit (TimerStop t) s"

definition timer_start :: "timer \<Rightarrow> proxyState \<Rightarrow> proxyState" where
  "timer_start t s = emit (TimerStart t) s"

subsection \<open>Termination: cleanUp, cleanStream, endStream\<close>

definition cleanUp :: "proxyState \<Rightarrow> (unit, proxyState) outcome" where
  "cleanUp s =
     (case upstreamRequest s of
        None \<Rightarrow> Panic NilPointerDereference s
      | Some u \<Rightarrow>
          let s1 = s\<lparr>upstreamRequest := Some (u\<lparr>requestEncoder := None\<rparr>)\<rparr> in
          (case retryState s1 of
             None \<Rightarrow> Panic NilPointerDereference s1
           | Some r \<Rightarrow>
               let s2 = s1\<lparr>retryState := Some (retryState_reset r)\<rparr>;
                   s3 = (case perRetryTimer s2 of
                           None \<Rightarrow> s2
                         | Some t \<Rightarrow> (timer_stop t s2)\<lparr>perRetryTimer := None\<rparr>);
                   s4 = (case responseTimer s3 of
                           None \<Rightarrow> s3
                         | Some t \<Rightarrow> (timer_stop t s3)\<lparr>responseTimer := None\<rparr>)
               in Done () s4))"

definition cleanStream :: "env \<Rightarrow> proxyState \<Rightarrow> (unit, proxyState) outcome" where
  "cleanStream env s =
     (let s1 = emit (DownstreamRequestActiveDec ListenerStats)
                 (emit (DownstreamRequestActiveDec ProxyStats) s)
      in andThen
           (if upstreamRequest s1 \<noteq> None then upstreamRequest_resetStream s1 else Done () s1)
           (\<lambda>_ s2. andThen (cleanUp s2)
              (\<lambda>_ s3.
                 let s4 = s3\<lparr>trace := trace s3 @ map EncoderFilterOnDestroy (encoderFilters s3)\<rparr>;
                     s5 = s4\<lparr>trace := trace s4 @ map DecoderFilterOnDestroy (decoderFilters s4)\<rparr>;
                     s6 = s5\<lparr>trace := trace s5 @
                            replicate (accessLogs env)
                              (AccessLog (downstreamReqHeaders s5) (downstreamRespHeaders s5))\<rparr>
                 in Done () (emit DeleteActiveStream s6))))"

definition endStream :: "env \<Rightarrow> proxyState \<Rightarrow> (unit, proxyState) outcome" where
  "endStream env s =
     (let (isReset, s1) =
            (if responseEncoder s \<noteq> None then
               (if \<not> downstreamRecvDone s \<or> \<not> localProcessDone s then
                  (True, emit (DownstreamResetStream (StreamLocalReset env))
                           (s\<lparr>localProcessDone := True\<rparr>))
                else (False, s))
             else (False, s))
      in if \<not> isReset then cleanStream env s1 else Done () s1)"

definition resetStream :: "env \<Rightarrow> proxyState \<Rightarrow> (unit, proxyState) outcome" where
  "resetStream env s = endStream env s"

definition OnResetStream :: "env \<Rightarrow> StreamResetReason \<Rightarrow> proxyState \<Rightarrow> (unit, proxyState) outcome" where
  "OnResetStream env reason s =
     cleanStream env
       (emit (DownstreamRequestResetInc ListenerStats)
          (emit (DownstreamRequestResetInc ProxyStats) s))"

subsection \<open>The encode path\<close>

definition doEncodeHeaders ::
  "env \<Rightarrow> nat option \<Rightarrow> headers option \<Rightarrow> bool \<Rightarrow> proxyState \<Rightarrow> (unit, proxyState) outcome" where
  "doEncodeHeaders env fromFilter hs end_stream s =
     (if encodeHeaderFilters env fromFilter hs end_stream then Done () s
      else (case responseEncoder s of
              None \<Rightarrow> Panic NilPointerDereference s
            | Some enc \<Rightarrow>
                let s1 = emit (DownstreamEncodeHeaders hs end_stream) s
                in if end_stream then endStream env s1 else Done () s1))"

definition encodeHeaders ::
  "env \<Rightarrow> headers option \<Rightarrow> bool \<Rightarrow> proxyState \<Rightarrow> (unit, proxyState) outcome" where
  "encodeHeaders env hs end_stream s =
     doEncodeHeaders env None hs end_stream (s\<lparr>localProcessDone := end_stream\<rparr>)"

definition doEncodeData ::
  "env \<Rightarrow> nat option \<Rightarrow> nat \<Rightarrow> bool \<Rightarrow> proxyState \<Rightarrow> (unit, proxyState) outcome" where
  "doEncodeData env fromFilter data end_stream s =
     (if encodeDataFilters env fromFilter data end_stream then Done () s
      else (case responseEncoder s of
              None \<Rightarrow> Panic NilPointerDereference s
            | Some enc \<Rightarrow>
                let s1 = emit (DownstreamEncodeData data (ioBuffers s data) end_stream) s;
                    s2 = s1\<lparr>bytesSent := bytesSent s1 + of_nat (length (ioBuffers s1 data))\<rparr>
                in if end_stream then endStream env s2 else Done () s2))"

definition encodeData ::
  "env \<Rightarrow> nat \<Rightarrow> bool \<Rightarrow> proxyState \<Rightarrow> (unit, proxyState) outcome" where
  "encodeData env data end_stream s =
     doEncodeData env None data end_stream (s\<lparr>localProcessDone := end_stream\<rparr>)"

definition doEncodeTrailers ::
  "env \<Rightarrow> nat option \<Rightarrow> headers option \<Rightarrow> proxyState \<Rightarrow> (unit, proxyState) outcome" where
  "doEncodeTrailers env fromFilter ts s =
     (if encodeTrailersFilters env fromFilter ts then Done () s
      else (case responseEncoder s of
              None \<Rightarrow> Panic NilPointerDereference s
            | Some enc \<Rightarrow> endStream env (emit (DownstreamEncodeTrailers ts) s)))"

definition encodeTrailers ::
  "env \<Rightarrow> headers option \<Rightarrow> proxyState \<Rightarrow> (unit, proxyState) outcome" where
  "encodeTrailers env ts s = doEncodeTrailers env None ts (s\<lparr>localProcessDone := True\<rparr>)"

text \<open>
  In the source a header map is a reference, and \<^verbatim>\<open>sendHijackReply\<close> writes the status
  into the map of its caller. The model passes header maps by value: the status shows in the
  headers handed to the encode path, and not in \<^verbatim>\<open>downstreamReqHeaders\<close>.
\<close>

definition sendHijackReply ::
  "env \<Rightarrow> int \<Rightarrow> headers option \<Rightarrow> proxyState \<Rightarrow> (unit, proxyState) outcome" where
  "sendHijackReply env code hs s =
     (let hs1 = (case hs of None \<Rightarrow> Map.empty | Some h \<Rightarrow> h);
          hs2 = hs1(HeaderStatus env \<mapsto> Itoa code)
      in encodeHeaders env (Some hs2) True s)"

subsection \<open>Timers and the request-sent transition\<close>

definition setupPerTryTimeout :: "proxyState \<Rightarrow> (unit, proxyState) outcome" where
  "setupPerTryTimeout s =
     (case timeout s of
        None \<Rightarrow> Panic NilPointerDereference s
      | Some tmo \<Rightarrow>
          if 0 <s TryTimeout tmo then
            let s1 = (case perRetryTimer s of None \<Rightarrow> s | Some t \<Rightarrow> timer_stop t s);
                t1 = Timer PerTryTimeoutCallback (TryTimeout tmo * 1000000000)
            in Done () (timer_start t1 (s1\<lparr>perRetryTimer := Some t1\<rparr>))
          else Done () s)"

definition onUpstreamRequestSent :: "proxyState \<Rightarrow> (unit, proxyState) outcome" where
  "onUpstreamRequestSent s =
     (let s1 = emit SetRequestReceivedDuration (s\<lparr>upstreamRequestSent := True\<rparr>)
      in if upstreamRequest s1 \<noteq> None then
           andThen (setupPerTryTimeout s1)
             (\<lambda>_ s2.
                case timeout s2 of
                  None \<Rightarrow> Panic NilPointerDereference s2
                | Some tmo \<Rightarrow>
                    if 0 <s GlobalTimeout tmo then
                      let s3 = (case responseTimer s2 of
                                  None \<Rightarrow> s2
                                | Some t \<Rightarrow> timer_stop t s2);
                          t1 = Timer ResponseTimeoutCallback (GlobalTimeout tmo)
                      in Done () (timer_start t1 (s3\<lparr>responseTimer := Some t1\<rparr>))
                    else Done () s2)
         else Done () s1)"

subsection \<open>The retry gate\<close>

definition setupRetry :: "bool \<Rightarrow> proxyState \<Rightarrow> (bool, proxyState) outcome" where
  "setupRetry end_stream s =
     (if \<not> upstreamRequestSent s then Done False s
      else andThen (if \<not> end_stream then upstreamRequest_resetStream s else Done () s)
             (\<lambda>_ s1. Done True (s1\<lparr>upstreamRequest := None\<rparr>)))"

text \<open>
  \<^verbatim>\<open>onUpstreamReset\<close> first decides whether it returns after setting up a retry (the
  value \<^term>\<open>True\<close> of the first step), then cleans up and answers downstream.
\<close>

definition onUpstreamReset ::
  "env \<Rightarrow> UpstreamResetType \<Rightarrow> StreamResetReason \<Rightarrow> proxyState \<Rightarrow> (unit, proxyState) outcome" where
  "onUpstreamReset env urtype reason s =
     andThen
       (if urtype \<noteq> UpstreamGlobalTimeout \<and> downstreamResponseStarted s \<and> retryState s \<noteq> None
        then
          (case retryState s of
             None \<Rightarrow> Done False s
           | Some r \<Rightarrow>
               let (retryCheck, r1) = retry env r None reason;
                   s1 = s\<lparr>retryState := Some r1\<rparr>
               in if retryCheck = ShouldRetry then setupRetry True s1
                  else if retryCheck = RetryOverflow
                       then Done False (emit (SetResponseFlag UpstreamOverflow) s1)
                       else Done False s1)
        else Done False s)
       (\<lambda>returned s2.
          if returned then Done () s2
          else andThen (cleanUp s2)
                 (\<lambda>_ s3.
                    if downstreamResponseStarted s3 then resetStream env s3
                    else if urtype = UpstreamGlobalTimeout \<or> urtype = UpstreamPerTryTimeout
                         then sendHijackReply env (TimeoutExceptionCode env)
                                (downstreamReqHeaders s3)
                                (emit (SetResponseFlag UpstreamRequestTimeout) s3)
                         else sendHijackReply env (NoHealthUpstreamCode env)
                                (downstreamReqHeaders s3)
                                (emit (SetResponseFlag (ReasonFlag reason)) s3)))"

definition hostStatsTimeout :: "upstreamRequest \<Rightarrow> proxyState \<Rightarrow> proxyState" where
  "hostStatsTimeout u s =
     (case host u of None \<Rightarrow> s | Some h \<Rightarrow> emit (HostUpstreamRequestTimeoutInc h) s)"

definition onResponseTimeout :: "env \<Rightarrow> proxyState \<Rightarrow> (unit, proxyState) outcome" where
  "onResponseTimeout env s =
     (let s1 = s\<lparr>responseTimer := None\<rparr>
      in case cluster s1 of
           None \<Rightarrow> Panic NilPointerDereference s1
         | Some c \<Rightarrow>
             let s2 = emit ClusterUpstreamRequestTimeoutInc s1
             in andThen
                  (case upstreamRequest s2 of
                     None \<Rightarrow> Done () s2
                   | Some u \<Rightarrow> upstreamRequest_resetStream (hostStatsTimeout u s2))
                  (\<lambda>_ s3. onUpstreamReset env UpstreamGlobalTimeout (StreamLocalReset env) s3))"

definition onPerTryTimeout :: "env \<Rightarrow> proxyState \<Rightarrow> (unit, proxyState) outcome" where
  "onPerTryTimeout env s =
     (if \<not> downstreamResponseStarted s then
        let s1 = s\<lparr>perRetryTimer := None\<rparr>
        in case cluster s1 of
             None \<Rightarrow> Panic NilPointerDereference s1
           | Some c \<Rightarrow>
               let s2 = emit ClusterUpstreamRequestTimeoutInc s1
               in (case upstreamRequest s2 of
                     None \<Rightarrow> Panic NilPointerDereference s2
                   | Some u \<Rightarrow>
                       andThen (upstreamRequest_resetStream (hostStatsTimeout u s2))
                         (\<lambda>_ s3.
                            onUpstreamReset env UpstreamPerTryTimeout (StreamLocalReset env)
                              (emit (SetResponseFlag UpstreamRequestTimeout) s3)))
      else Done () s)"

subsection \<open>Pool acquisition and the decode path\<close>

text \<open>
  \<^verbatim>\<open>initializeUpstreamConnectionPool\<close> returns an error and a pool; the value of the model
  is the pool, and \<^term>\<open>None\<close> when the source returns an error. The load-balancer context is
  the stream itself or nil.
\<close>

definition initializeUpstreamConnectionPool ::
  "env \<Rightarrow> string \<Rightarrow> bool \<Rightarrow> proxyState \<Rightarrow> (nat option, proxyState) outcome" where
  "initializeUpstreamConnectionPool env clusterName lbCtx s =
     (case clusterManager_Get env clusterName of
        None \<Rightarrow>
          andThen (sendHijackReply env (RouterUnavailableCode env) (downstreamReqHeaders s)
                     (emit (SetResponseFlag NoRouteFound) s))
            (\<lambda>_ s1. Done None s1)
      | Some info \<Rightarrow>
          let s1 = s\<lparr>cluster := Some info\<rparr>;
              connPool =
                (case UpstreamProtocol env of
                   SofaRpc \<Rightarrow> SofaRpcConnPoolForCluster env clusterName lbCtx
                 | Http2 \<Rightarrow> HttpConnPoolForCluster env clusterName Http2 lbCtx
                 | Http1 \<Rightarrow> HttpConnPoolForCluster env clusterName Http1 lbCtx
                 | OtherProtocol p \<Rightarrow> HttpConnPoolForCluster env clusterName Http2 lbCtx)
          in (case connPool of
                None \<Rightarrow>
                  andThen (sendHijackReply env (NoHealthUpstreamCode env) (downstreamReqHeaders s1)
                             (emit (SetResponseFlag NoHealthyUpstream) s1))
                    (\<lambda>_ s2. Done None s2)
              | Some pool \<Rightarrow> Done (Some pool) s1))"

definition newUpstreamRequest :: "nat \<Rightarrow> upstreamRequest" where
  "newUpstreamRequest pool = \<lparr>connPool = pool, requestEncoder = None, host = None\<rparr>"

definition doDecodeHeaders ::
  "env \<Rightarrow> nat option \<Rightarrow> headers option \<Rightarrow> bool \<Rightarrow> proxyState \<Rightarrow> (unit, proxyState) outcome" where
  "doDecodeHeaders env fromFilter hs end_stream s =
     (if decodeHeaderFilters env fromFilter hs end_stream then Done () s
      else
        (case (case Route env hs 1 of None \<Rightarrow> None | Some rt \<Rightarrow>
                 (case RouteRule rt of None \<Rightarrow> None | Some rule \<Rightarrow> Some (rt, rule))) of
           None \<Rightarrow>
             sendHijackReply env (RouterUnavailableCode env) hs
               (emit (SetResponseFlag NoRouteFound) s)
         | Some (rt, rule) \<Rightarrow>
             let s1 = emit SetDownstreamRemoteAddress
                        (emit SetDownstreamLocalAddress
                           (emit (SetRouteEntry rule) (s\<lparr>route := Some rt\<rparr>)))
             in andThen (initializeUpstreamConnectionPool env (ClusterName rule) True s1)
                  (\<lambda>pool s2.
                     case pool of
                       None \<Rightarrow> Done () s2
                     | Some p \<Rightarrow>
                         let s3 = s2\<lparr>timeout := parseProxyTimeout env rt hs,
                                     retryState := newRetryState env rule hs (cluster s2),
                                     upstreamRequest := Some (newUpstreamRequest p)\<rparr>
                         in andThen (upstreamRequest_encodeHeaders hs end_stream s3)
                              (\<lambda>_ s4. if end_stream then onUpstreamRequestSent s4
                                       else Done () s4))))"

definition OnDecodeHeaders ::
  "env \<Rightarrow> headers option \<Rightarrow> bool \<Rightarrow> proxyState \<Rightarrow> (unit, proxyState) outcome" where
  "OnDecodeHeaders env hs end_stream s =
     doDecodeHeaders env None hs end_stream
       (s\<lparr>downstreamRecvDone := end_stream, downstreamReqHeaders := hs\<rparr>)"

definition doDecodeData ::
  "env \<Rightarrow> nat option \<Rightarrow> nat \<Rightarrow> bool \<Rightarrow> proxyState \<Rightarrow> (unit, proxyState) outcome" where
  "doDecodeData env fromFilter data end_stream s =
     (if localProcessDone s then Done () s
      else
        let (stopped, s0) = decodeDataFilters env fromFilter data end_stream s
        in if stopped then Done () s0
           else
             let shouldBufData =
                   (case retryState s0 of None \<Rightarrow> False | Some r \<Rightarrow> retryOn r)
             in andThen (if end_stream then onUpstreamRequestSent s0 else Done () s0)
                  (\<lambda>_ s1.
                     if shouldBufData then
                       let (copied, s2) = Clone data s1;
                           s3 = (if downstreamReqDataBuf s2 \<noteq> Some data then
                                   let (buf, s2a) =
                                         (case downstreamReqDataBuf s2 of
                                            None \<Rightarrow>
                                              let (b, s2b) = NewIoBuffer s2
                                              in (b, s2b\<lparr>downstreamReqDataBuf := Some b\<rparr>)
                                          | Some b \<Rightarrow> (b, s2))
                                   in ReadFrom buf data s2a
                                 else s2)
                       in upstreamRequest_encodeData copied end_stream s3
                     else upstreamRequest_encodeData data end_stream s1))"

definition OnDecodeData ::
  "env \<Rightarrow> nat \<Rightarrow> bool \<Rightarrow> proxyState \<Rightarrow> (unit, proxyState) outcome" where
  "OnDecodeData env data end_stream s =
     doDecodeData env None data end_stream
       (s\<lparr>bytesReceived := bytesReceived s + of_nat (length (ioBuffers s data)),
          downstreamRecvDone := end_stream\<rparr>)"

definition doDecodeTrailers ::
  "env \<Rightarrow> nat option \<Rightarrow> headers option \<Rightarrow> proxyState \<Rightarrow> (unit, proxyState) outcome" where
  "doDecodeTrailers env fromFilter ts s =
     (if localProcessDone s then Done () s
      else if decodeTrailersFilters env fromFilter ts then Done () s
      else andThen (onUpstreamRequestSent (s\<lparr>downstreamReqTrailers := ts\<rparr>))
             (\<lambda>_ s1. upstreamRequest_encodeTrailers ts s1))"

definition OnDecodeTrailers ::
  "env \<Rightarrow> headers option \<Rightarrow> proxyState \<Rightarrow> (unit, proxyState) outcome" where
  "OnDecodeTrailers env ts s = doDecodeTrailers env None ts (s\<lparr>downstreamRecvDone := True\<rparr>)"

definition OnDecodeError ::
  "env \<Rightarrow> string \<Rightarrow> headers option \<Rightarrow> proxyState \<Rightarrow> (unit, proxyState) outcome" where
  "OnDecodeError env err hs s =
     (if err = CodecException env then sendHijackReply env (CodecExceptionCode env) hs s
      else if err = DeserializeException env
           then sendHijackReply env (DeserialExceptionCode env) hs s
           else sendHijackReply env (UnknownCode env) hs s)"

subsection \<open>Upstream callbacks and doRetry\<close>

definition onUpstreamResponseRecvFinished :: "proxyState \<Rightarrow> (unit, proxyState) outcome" where
  "onUpstreamResponseRecvFinished s =
     andThen (if \<not> upstreamRequestSent s then upstreamRequest_resetStream s else Done () s)
       (\<lambda>_ s1. cleanUp s1)"

definition onUpstreamHeaders ::
  "env \<Rightarrow> headers option \<Rightarrow> bool \<Rightarrow> proxyState \<Rightarrow> (unit, proxyState) outcome" where
  "onUpstreamHeaders env hs end_stream s =
     (let s0 = s\<lparr>downstreamRespHeaders := hs\<rparr>
      in andThen
           (case retryState s0 of
              None \<Rightarrow> Done False s0
            | Some r \<Rightarrow>
                let (retryCheck, r1) = retry env r hs [];
                    s1 = s0\<lparr>retryState := Some r1\<rparr>
                in andThen
                     (if retryCheck = ShouldRetry then setupRetry end_stream s1
                      else if retryCheck = RetryOverflow
                           then Done False (emit (SetResponseFlag UpstreamOverflow) s1)
                           else Done False s1)
                     (\<lambda>returned s2.
                        if returned then Done True s2
                        else (case retryState s2 of
                                None \<Rightarrow> Panic NilPointerDereference s2
                              | Some r2 \<Rightarrow>
                                  Done False (s2\<lparr>retryState := Some (retryState_reset r2)\<rparr>))))
           (\<lambda>returned s3.
              if returned then Done () s3
              else
                let s4 = (emit SetResponseReceivedDuration s3)\<lparr>downstreamResponseStarted := True\<rparr>
                in andThen (if end_stream then onUpstreamResponseRecvFinished s4 else Done () s4)
                     (\<lambda>_ s5. encodeHeaders env hs end_stream s5)))"

definition onUpstreamData ::
  "env \<Rightarrow> nat \<Rightarrow> bool \<Rightarrow> proxyState \<Rightarrow> (unit, proxyState) outcome" where
  "onUpstreamData env data end_stream s =
     andThen (if end_stream then onUpstreamResponseRecvFinished s else Done () s)
       (\<lambda>_ s1. encodeData env data end_stream s1)"

definition onUpstreamTrailers ::
  "env \<Rightarrow> headers option \<Rightarrow> proxyState \<Rightarrow> (unit, proxyState) outcome" where
  "onUpstreamTrailers env ts s =
     andThen (onUpstreamResponseRecvFinished s) (\<lambda>_ s1. encodeTrailers env ts s1)"

definition doRetry :: "env \<Rightarrow> proxyState \<Rightarrow> (unit, proxyState) outcome" where
  "doRetry env s =
     (case cluster s of
        None \<Rightarrow> Panic NilPointerDereference s
      | Some name \<Rightarrow>
          andThen (initializeUpstreamConnectionPool env name False s)
            (\<lambda>pool s1.
               case pool of
                 None \<Rightarrow>
                   andThen (sendHijackReply env (NoHealthUpstreamCode env)
                              (downstreamReqHeaders s1) s1)
                     (\<lambda>_ s2. cleanUp s2)
               | Some p \<Rightarrow>
                   let s2 = s1\<lparr>upstreamRequest := Some (newUpstreamRequest p)\<rparr>
                   in andThen
                        (upstreamRequest_encodeHeaders (downstreamReqHeaders s2)
                           (downstreamReqDataBuf s2 \<noteq> None \<and> downstreamReqTrailers s2 \<noteq> None)
                           s2)
                        (\<lambda>_ s3.
                           if upstreamRequest s3 \<noteq> None then
                             andThen
                               (case downstreamReqDataBuf s3 of
                                  None \<Rightarrow> Done () s3
                                | Some b \<Rightarrow>
                                    let (copied, s3a) = Clone b s3
                                    in upstreamRequest_encodeData copied
                                         (downstreamReqTrailers s3a = None) s3a)
                               (\<lambda>_ s4.
                                  andThen
                                    (if downstreamReqTrailers s4 \<noteq> None
                                     then upstreamRequest_encodeTrailers (downstreamReqTrailers s4) s4
                                     else Done () s4)
                                    (\<lambda>_ s5. setupPerTryTimeout s5))
                           else Done () s3)))"

subsection \<open>Creating a stream\<close>

text \<open>
  \<^verbatim>\<open>newActiveStream\<close> takes a struct from the pool or allocates one, and fills in the
  response encoder. The model is given the struct; \<^verbatim>\<open>zeroStream\<close> is the freshly allocated
  one, in a world without buffers.
\<close>

definition zeroStream :: proxyState where
  "zeroStream =
     \<lparr>route = None, cluster = None, timeout = None, retryState = None,
      bytesReceived = 0, bytesSent = 0, responseEncoder = None, upstreamRequest = None,
      perRetryTimer = None, responseTimer = None, downstreamReqHeaders = None,
      downstreamReqDataBuf = None, downstreamReqTrailers = None,
      downstreamRespHeaders = None, downstreamResponseStarted = False,
      upstreamRequestSent = False, downstreamRecvDone = False, localProcessDone = False,
      encoderFilters = [], decoderFilters = [],
      ioBuffers = (\<lambda>_. []), nextBuffer = 0, trace = []\<rparr>"

definition newActiveStream :: "nat option \<Rightarrow> proxyState \<Rightarrow> (unit, proxyState) outcome" where
  "newActiveStream enc stream =
     (let s = stream\<lparr>bytesReceived := 0, bytesSent := 0, responseEncoder := enc\<rparr>
      in case responseEncoder s of
           None \<Rightarrow> Panic NilPointerDereference s
         | Some e \<Rightarrow>
             Done ()
               (emit (DownstreamRequestActiveInc ListenerStats)
                  (emit (DownstreamRequestTotalInc ListenerStats)
                     (emit (DownstreamRequestActiveInc ProxyStats)
                        (emit (DownstreamRequestTotalInc ProxyStats)
                           (emit AddEventListener s))))))"

subsection \<open>Sequences of decode events\<close>

text \<open>
  The decode events that can follow the headers of a request: data and trailers from the
  codec, and data and trailers with which a decoder filter continues the chain.
\<close>

datatype decodeEvent =
    DecodeData nat bool
  | DecodeTrailers "headers option"
  | ContinueData nat nat bool
  | ContinueTrailers nat "headers option"

fun decodeStep :: "env \<Rightarrow> decodeEvent \<Rightarrow> proxyState \<Rightarrow> (unit, proxyState) outcome" where
  "decodeStep env (DecodeData data end_stream) s = OnDecodeData env data end_stream s"
| "decodeStep env (DecodeTrailers ts) s = OnDecodeTrailers env ts s"
| "decodeStep env (ContinueData f data end_stream) s = doDecodeData env (Some f) data end_stream s"
| "decodeStep env (ContinueTrailers f ts) s = doDecodeTrailers env (Some f) ts s"

fun decodeAll :: "env \<Rightarrow> decodeEvent list \<Rightarrow> proxyState \<Rightarrow> (unit, proxyState) outcome" where
  "decodeAll env [] s = Done () s"
| "decodeAll env (ev # evs) s = andThen (decodeStep env ev s) (\<lambda>_. decodeAll env evs)"

subsection \<open>Reading the trace\<close>

fun isUpstreamEncode :: "event \<Rightarrow> bool" where
  "isUpstreamEncode (UpstreamEncodeHeaders hs e) = True"
| "isUpstreamEncode (UpstreamEncodeData b bs e) = True"
| "isUpstreamEncode (UpstreamEncodeTrailers ts) = True"
| "isUpstreamEncode ev = False"

fun isTimerStop :: "event \<Rightarrow> bool" where
  "isTimerStop (TimerStop t) = True"
| "isTimerStop ev = False"

definition newEvents :: "proxyState \<Rightarrow> proxyState \<Rightarrow> event list" where
  "newEvents s s1 = drop (length (trace s)) (trace s1)"


definition retryPossible :: "proxyState \<Rightarrow> bool" where
  "retryPossible s = (case retryState s of None \<Rightarrow> False | Some r \<Rightarrow> retryOn r)"

subsection \<open>A sample configuration\<close>

text \<open>
  One listener routing to the cluster \<^verbatim>\<open>server_1\<close>, with pass-through filters, a retry
  policy and both timeouts. The status codes and names are sample values.
\<close>

definition sampleEnv :: env where
  "sampleEnv =
     \<lparr>HeaderStatus = ''x-mosn-status'',
      CodecException = ''codec exception occurs'',
      DeserializeException = ''deserial exception occurs'',
      StreamLocalReset = ''StreamLocalReset'',
      RouterUnavailableCode = 404,
      NoHealthUpstreamCode = 502,
      CodecExceptionCode = 1,
      DeserialExceptionCode = 3,
      UnknownCode = 2,
      TimeoutExceptionCode = 504,
      UpstreamProtocol = OtherProtocol ''X'',
      accessLogs = 1,
      Route = (\<lambda>hs n. Some \<lparr>RouteRule = Some \<lparr>ClusterName = ''server_1''\<rparr>\<rparr>),
      clusterManager_Get = (\<lambda>n. if n = ''server_1'' then Some n else None),
      SofaRpcConnPoolForCluster = (\<lambda>n c. Some 0),
      HttpConnPoolForCluster = (\<lambda>n p c. Some 0),
      parseProxyTimeout = (\<lambda>rt hs. Some \<lparr>GlobalTimeout = 60000000000, TryTimeout = 1\<rparr>),
      newRetryState = (\<lambda>rule hs c. Some \<lparr>retryOn = True, retryScheduled = False\<rparr>),
      retryCheck = (\<lambda>r hs reason. NoRetry),
      decodeHeaderFilters = (\<lambda>f hs e. False),
      decodeDataFilters = (\<lambda>f d e s. (False, s)),
      decodeTrailersFilters = (\<lambda>f ts. False),
      encodeHeaderFilters = (\<lambda>f hs e. False),
      encodeDataFilters = (\<lambda>f d e. False),
      encodeTrailersFilters = (\<lambda>f ts. False)\<rparr>"

text \<open>
  A stream in the middle of a request: headers forwarded to an attempt on pool 0, the
  request sent, both timers armed, nothing yet received from the upstream.
\<close>

definition sentStream :: proxyState where
  "sentStream =
     zeroStream
       \<lparr>route := Some \<lparr>RouteRule = Some \<lparr>ClusterName = ''server_1''\<rparr>\<rparr>,
        cluster := Some ''server_1'',
        timeout := Some \<lparr>GlobalTimeout = 60000000000, TryTimeout = 1\<rparr>,
        retryState := Some \<lparr>retryOn = True, retryScheduled = False\<rparr>,
        responseEncoder := Some 7,
        upstreamRequest := Some \<lparr>connPool = 0, requestEncoder = Some 3, host = None\<rparr>,
        perRetryTimer := Some (Timer PerTryTimeoutCallback 1000000000),
        responseTimer := Some (Timer ResponseTimeoutCallback 60000000000),
        downstreamReqHeaders := Some [''service'' \<mapsto> ''hello''],
        upstreamRequestSent := True,
        downstreamRecvDone := True\<rparr>"

text \<open>
  The same stream while a retry is pending: \<^verbatim>\<open>setupRetry\<close> has released the attempt. The
  request had headers only, so there is neither a buffered body nor trailers.
\<close>

definition retryingStream :: proxyState where
  "retryingStream = sentStream\<lparr>upstreamRequest := None\<rparr>"

text \<open>
  A stream whose headers went upstream without end of stream, in a world where the codec
  holds the first chunk of the body, three bytes in the buffer at address 0.
\<close>

definition bodyStream :: proxyState where
  "bodyStream =
     sentStream
       \<lparr>perRetryTimer := None, responseTimer := None,
        upstreamRequestSent := False, downstreamRecvDone := False,
        ioBuffers := (\<lambda>_. [])(0 := [1, 2, 3]), nextBuffer := 1\<rparr>"

text \<open>The same stream after a hijack reply, the retry state still allowing a retry.\<close>

definition droppedBodyStream :: proxyState where
  "droppedBodyStream = bodyStream\<lparr>localProcessDone := True\<rparr>"

text \<open>The same stream on a retry, with the body buffered at address 0.\<close>

definition bufferedStream :: proxyState where
  "bufferedStream = bodyStream\<lparr>upstreamRequest := None, downstreamReqDataBuf := Some 0\<rparr>"

text \<open>A stream that has just been created, and one that a hijack reply has finished.\<close>

definition freshStream :: proxyState where
  "freshStream = zeroStream\<lparr>responseEncoder := Some 7\<rparr>"

definition hijackedStream :: proxyState where
  "hijackedStream = sentStream\<lparr>localProcessDone := True\<rparr>"

text \<open>A retry policy that retries on a reset and on no response status.\<close>

definition resetRetryEnv :: env where
  "resetRetryEnv =
     sampleEnv\<lparr>retryCheck := (\<lambda>r hs reason. if hs = None then ShouldRetry else NoRetry)\<rparr>"

text \<open>A router without a matching route.\<close>

definition noRouteEnv :: env where
  "noRouteEnv = sampleEnv\<lparr>Route := (\<lambda>hs n. None)\<rparr>"

subsection \<open>Properties of an outcome\<close>

text \<open>What \<^verbatim>\<open>doRetry\<close> sends upstream once it has a pool.\<close>

definition retryEvents :: "proxyState \<Rightarrow> event list" where
  "retryEvents s =
     UpstreamEncodeHeaders (downstreamReqHeaders s)
       (downstreamReqDataBuf s \<noteq> None \<and> downstreamReqTrailers s \<noteq> None) #
     (case downstreamReqDataBuf s of
        None \<Rightarrow> []
      | Some b \<Rightarrow>
          [UpstreamEncodeData (nextBuffer s) (ioBuffers s b) (downstreamReqTrailers s = None)]) @
     (case downstreamReqTrailers s of
        None \<Rightarrow> []
      | Some ts \<Rightarrow> [UpstreamEncodeTrailers (Some ts)])"

text \<open>
  A hijack reply with a status code: the stream is marked done, and the headers with the
  code under the status name are handed to the encoder filters and, when they let them
  pass, to the downstream encoder with end of stream.
\<close>

definition statusHeaders :: "env \<Rightarrow> int \<Rightarrow> headers option \<Rightarrow> headers" where
  "statusHeaders env code hs =
     (case hs of None \<Rightarrow> Map.empty | Some h \<Rightarrow> h)(HeaderStatus env \<mapsto> Itoa code)"

definition isHijackReply ::
  "env \<Rightarrow> int \<Rightarrow> headers option \<Rightarrow> proxyState \<Rightarrow> (unit, proxyState) outcome \<Rightarrow> bool" where
  "isHijackReply env code hs s out =
     (localProcessDone (stateOf out) \<and>
      (if encodeHeaderFilters env None (Some (statusHeaders env code hs)) True
       then out = Done () (s\<lparr>localProcessDone := True\<rparr>)
       else if responseEncoder s = None
            then out = Panic NilPointerDereference (s\<lparr>localProcessDone := True\<rparr>)
            else take 1 (newEvents s (stateOf out)) =
                   [DownstreamEncodeHeaders (Some (statusHeaders env code hs)) True]))"

text \<open>
  No upstream attempt between two states: the trace has only grown, by no encode call on
  the upstream. A stream without an upstream request still has none and has made no call
  on the upstream at all; a stream with one has the same, at most reset and with its
  encoder released.
\<close>

definition noUpstreamAttempt :: "proxyState \<Rightarrow> proxyState \<Rightarrow> bool" where
  "noUpstreamAttempt s s1 =
     (take (length (trace s)) (trace s1) = trace s \<and>
      filter isUpstreamEncode (newEvents s s1) = [] \<and>
      (case upstreamRequest s of
         None \<Rightarrow> upstreamRequest s1 = None \<and> UpstreamResetStream \<notin> set (newEvents s s1)
       | Some u \<Rightarrow>
           upstreamRequest s1 = Some u \<or>
           upstreamRequest s1 = Some (u\<lparr>requestEncoder := None\<rparr>)))"

section \<open>Properties\<close>

lemmas sample_defs = sampleEnv_def sentStream_def zeroStream_def retryingStream_def
  bodyStream_def droppedBodyStream_def bufferedStream_def freshStream_def hijackedStream_def resetRetryEnv_def
  noRouteEnv_def

lemmas hijack_defs = andThen_def emit_def timer_stop_def Let_def retryState_reset_def
  upstreamRequest_resetStream_def cleanUp_def cleanStream_def endStream_def
  doEncodeHeaders_def encodeHeaders_def sendHijackReply_def

lemmas method_defs = hijack_defs timer_start_def retry_def
  upstreamRequest_encodeHeaders_def upstreamRequest_encodeData_def
  upstreamRequest_encodeTrailers_def Clone_def NewIoBuffer_def ReadFrom_def
  resetStream_def setupPerTryTimeout_def onUpstreamRequestSent_def setupRetry_def
  onUpstreamReset_def initializeUpstreamConnectionPool_def newUpstreamRequest_def
  doDecodeHeaders_def OnDecodeHeaders_def doDecodeData_def OnDecodeError_def
  onUpstreamResponseRecvFinished_def onUpstreamHeaders_def doRetry_def newActiveStream_def

subsection \<open>Helper lemmas\<close>

lemma Itoa_404: "Itoa 404 = ''404''"
  by code_simp

lemma Itoa_3: "Itoa 3 = ''3''"
  by code_simp

lemma cleanUp_nil_upstreamRequest:
  "upstreamRequest s = None \<Longrightarrow> cleanUp s = Panic NilPointerDereference s"
  by (simp add: cleanUp_def)

lemma setupPerTryTimeout_frame:
  "\<exists>evs. trace (stateOf (setupPerTryTimeout s)) = trace s @ evs \<and>
         filter isUpstreamEncode evs = [] \<and>
         downstreamReqDataBuf (stateOf (setupPerTryTimeout s)) = downstreamReqDataBuf s \<and>
         ioBuffers (stateOf (setupPerTryTimeout s)) = ioBuffers s \<and>
         (timeout s \<noteq> None \<longrightarrow> \<not> panicked (setupPerTryTimeout s))"
  by (cases "timeout s"; cases "perRetryTimer s")
     (simp_all add: setupPerTryTimeout_def emit_def timer_stop_def timer_start_def Let_def)

lemma onUpstreamRequestSent_frame:
  "onUpstreamRequestSent s = Done () s1 \<Longrightarrow>
   retryState s1 = retryState s \<and> upstreamRequest s1 = upstreamRequest s \<and>
   downstreamReqDataBuf s1 = downstreamReqDataBuf s \<and> ioBuffers s1 = ioBuffers s \<and>
   nextBuffer s1 = nextBuffer s \<and>
   take (length (trace s)) (trace s1) = trace s \<and>
   filter isUpstreamEncode (newEvents s s1) = []"
  by (auto simp: onUpstreamRequestSent_def setupPerTryTimeout_def andThen_def emit_def
        timer_stop_def timer_start_def Let_def newEvents_def
      split: option.splits if_splits)

lemma onUpstreamRequestSent_returns:
  "upstreamRequest s = None \<or> timeout s \<noteq> None \<Longrightarrow>
   \<exists>s1. onUpstreamRequestSent s = Done () s1"
  by (auto simp: onUpstreamRequestSent_def setupPerTryTimeout_def andThen_def emit_def Let_def
        timer_stop_def timer_start_def
      split: option.splits)

lemma onUpstreamRequestSent_trace:
  "\<exists>evs. trace (stateOf (onUpstreamRequestSent s)) = trace s @ evs \<and>
         filter isUpstreamEncode evs = []"
  by (auto simp: onUpstreamRequestSent_def setupPerTryTimeout_def andThen_def emit_def
        timer_stop_def timer_start_def Let_def
      split: option.splits)

lemma doDecodeData_stage:
  assumes "\<not> localProcessDone s" and "decodeDataFilters env f data e s = (False, s0)"
  shows "doDecodeData env f data e s =
           andThen (if e then onUpstreamRequestSent s0 else Done () s0)
             (\<lambda>_ s1.
                if retryPossible s0 then
                  let (copied, s2) = Clone data s1;
                      s3 = (if downstreamReqDataBuf s2 \<noteq> Some data then
                              let (buf, s2a) =
                                    (case downstreamReqDataBuf s2 of
                                       None \<Rightarrow>
                                         let (b, s2b) = NewIoBuffer s2
                                         in (b, s2b\<lparr>downstreamReqDataBuf := Some b\<rparr>)
                                     | Some b \<Rightarrow> (b, s2))
                              in ReadFrom buf data s2a
                            else s2)
                  in upstreamRequest_encodeData copied e s3
                else upstreamRequest_encodeData data e s1)"
  using assms by (simp add: doDecodeData_def retryPossible_def)

lemma doDecodeData_forwarded_returns:
  assumes "\<not> localProcessDone s" and "decodeDataFilters env f data e s = (stopped, s0)"
    and "ev \<in> set (newEvents s0 (stateOf (doDecodeData env f data e s)))"
    and "isUpstreamEncode ev"
  shows "\<not> stopped \<and> (\<exists>s1. doDecodeData env f data e s = Done () s1)"
proof -
  have ns: "\<not> stopped"
  proof
    assume "stopped"
    with assms(1,2) have "doDecodeData env f data e s = Done () s0"
      by (simp add: doDecodeData_def)
    with assms(3) show False by (simp add: newEvents_def)
  qed
  with assms(2) have fl: "decodeDataFilters env f data e s = (False, s0)" by simp
  note st = doDecodeData_stage [OF assms(1) fl]
  from onUpstreamRequestSent_trace [of s0] obtain evs where
    tr: "trace (stateOf (onUpstreamRequestSent s0)) = trace s0 @ evs"
      "filter isUpstreamEncode evs = []" by blast
  have "\<exists>s1. doDecodeData env f data e s = Done () s1"
  proof (cases "if e then onUpstreamRequestSent s0 else Done () s0")
    case (Panic err sp)
    then have out: "doDecodeData env f data e s = Panic err sp"
      using st by (simp add: andThen_def)
    from Panic tr have "\<exists>evs. trace sp = trace s0 @ evs \<and> filter isUpstreamEncode evs = []"
      by (cases e) auto
    with assms(3,4) out have False
      by (auto simp: newEvents_def filter_empty_conv)
    then show ?thesis ..
  next
    case (Done u s1)
    from Done tr have tr1: "\<exists>evs. trace s1 = trace s0 @ evs \<and> filter isUpstreamEncode evs = []"
      by (cases e) auto
    show ?thesis
    proof (cases "upstreamRequest s1")
      case None
      with Done st have "\<exists>sp. doDecodeData env f data e s = Panic NilPointerDereference sp \<and>
                            trace sp = trace s1"
        by (cases "retryPossible s0"; cases "downstreamReqDataBuf s1";
            cases "downstreamReqDataBuf s1 = Some data")
           (simp_all add: andThen_def Let_def Clone_def NewIoBuffer_def ReadFrom_def
              upstreamRequest_encodeData_def)
      then obtain sp where out: "doDecodeData env f data e s = Panic NilPointerDereference sp"
        and sp: "trace sp = trace s1" by blast
      from tr1 sp assms(3,4) out have False
        by (auto simp: newEvents_def filter_empty_conv)
      then show ?thesis ..
    next
      case (Some u)
      with Done st show ?thesis
        by (cases "retryPossible s0"; cases "downstreamReqDataBuf s1";
            cases "downstreamReqDataBuf s1 = Some data")
           (simp_all add: andThen_def Let_def Clone_def NewIoBuffer_def ReadFrom_def
              upstreamRequest_encodeData_def)
    qed
  qed
  with ns show ?thesis by simp
qed

lemma doDecodeData_forward:
  assumes "\<not> localProcessDone s" and "decodeDataFilters env f data e s = (False, s0)"
    and "doDecodeData env f data e s = Done () s1"
    and "data < nextBuffer s0"
    and "\<forall>b. downstreamReqDataBuf s0 = Some b \<longrightarrow> b < nextBuffer s0"
  shows "(retryPossible s0 \<longrightarrow>
           (\<exists>buf. downstreamReqDataBuf s1 = Some buf \<and> buf \<noteq> nextBuffer s0 \<and>
              data \<noteq> nextBuffer s0 \<and>
              ioBuffers s1 buf =
                (if downstreamReqDataBuf s0 = Some data then ioBuffers s0 data
                 else (case downstreamReqDataBuf s0 of None \<Rightarrow> [] | Some b \<Rightarrow> ioBuffers s0 b) @
                      ioBuffers s0 data) \<and>
              filter isUpstreamEncode (newEvents s0 s1) =
                [UpstreamEncodeData (nextBuffer s0) (ioBuffers s0 data) e])) \<and>
         (\<not> retryPossible s0 \<longrightarrow>
            downstreamReqDataBuf s1 = downstreamReqDataBuf s0 \<and> ioBuffers s1 = ioBuffers s0 \<and>
            filter isUpstreamEncode (newEvents s0 s1) =
              [UpstreamEncodeData data (ioBuffers s0 data) e])"
proof -
  note st = doDecodeData_stage [OF assms(1,2)]
  obtain t where sent: "(if e then onUpstreamRequestSent s0 else Done () s0) = Done () t"
    using assms(3) st
    by (cases "if e then onUpstreamRequestSent s0 else Done () s0")
       (auto simp: andThen_def)
  have frame: "retryState t = retryState s0" "upstreamRequest t = upstreamRequest s0"
    "downstreamReqDataBuf t = downstreamReqDataBuf s0" "ioBuffers t = ioBuffers s0"
    "nextBuffer t = nextBuffer s0"
    "take (length (trace s0)) (trace t) = trace s0"
    "filter isUpstreamEncode (newEvents s0 t) = []"
    using sent onUpstreamRequestSent_frame [of s0 t]
    by (auto simp: newEvents_def split: if_splits)
  from frame(6) obtain evs where evs: "trace t = trace s0 @ evs"
    by (metis append_take_drop_id)
  with frame(7) have noenc: "filter isUpstreamEncode evs = []"
    by (simp add: newEvents_def)
  show ?thesis
    using assms(3-5) st sent frame(1-5) evs noenc
    by (auto simp: andThen_def Let_def Clone_def
          NewIoBuffer_def ReadFrom_def upstreamRequest_encodeData_def emit_def newEvents_def
        split: option.splits if_splits)
qed

lemma doDecodeData_forwards:
  assumes "\<not> localProcessDone s" and "decodeDataFilters env f data e s = (False, s0)"
    and "upstreamRequest s0 \<noteq> None" and "timeout s0 \<noteq> None"
  shows "\<exists>s2 c bs. doDecodeData env f data e s = Done () s2 \<and>
           UpstreamEncodeData c bs e \<in> set (newEvents s0 s2)"
proof -
  note st = doDecodeData_stage [OF assms(1,2)]
  from assms(4) onUpstreamRequestSent_returns [of s0] obtain t0 where
    "onUpstreamRequestSent s0 = Done () t0" by blast
  then obtain t where sent: "(if e then onUpstreamRequestSent s0 else Done () s0) = Done () t"
    by (cases e) auto
  have frame: "upstreamRequest t = upstreamRequest s0"
    "downstreamReqDataBuf t = downstreamReqDataBuf s0" "ioBuffers t = ioBuffers s0"
    "take (length (trace s0)) (trace t) = trace s0"
    using sent onUpstreamRequestSent_frame [of s0 t]
    by (auto split: if_splits)
  from frame(4) obtain evs where evs: "trace t = trace s0 @ evs"
    by (metis append_take_drop_id)
  from assms(3) frame(1) obtain u where u: "upstreamRequest t = Some u" by auto
  show ?thesis
    using st sent frame(2,3) evs u
    by (cases "retryPossible s0"; cases "downstreamReqDataBuf s0";
        cases "downstreamReqDataBuf s0 = Some data")
       (auto simp: andThen_def Let_def Clone_def NewIoBuffer_def ReadFrom_def
          upstreamRequest_encodeData_def emit_def newEvents_def)
qed

lemma initializeUpstreamConnectionPool_pool:
  "initializeUpstreamConnectionPool env name lb s = Done (Some p) s0 \<Longrightarrow>
   \<exists>info. s0 = s\<lparr>cluster := Some info\<rparr>"
  by (auto simp: initializeUpstreamConnectionPool_def andThen_def Let_def
      split: option.splits outcome.splits)

lemma doRetry_with_pool:
  assumes "cluster s = Some name"
    and "initializeUpstreamConnectionPool env name False s = Done (Some p) s0"
  shows "\<exists>s5. doRetry env s = setupPerTryTimeout s5 \<and>
           trace s5 = trace s @ retryEvents s \<and>
           timeout s5 = timeout s \<and>
           downstreamReqDataBuf s5 = downstreamReqDataBuf s \<and>
           (\<forall>b. b < nextBuffer s \<longrightarrow> ioBuffers s5 b = ioBuffers s b)"
proof -
  from initializeUpstreamConnectionPool_pool [OF assms(2)] obtain info where
    s0: "s0 = s\<lparr>cluster := Some info\<rparr>" by blast
  show ?thesis
    using assms s0
    apply (cases "downstreamReqDataBuf s"; cases "downstreamReqTrailers s")
       apply (simp_all add: doRetry_def andThen_def Let_def Clone_def newUpstreamRequest_def
          upstreamRequest_encodeHeaders_def upstreamRequest_encodeData_def
          upstreamRequest_encodeTrailers_def emit_def retryEvents_def)
       apply (rule exI, rule conjI, rule refl, simp)+
    done
qed

lemma doRetry_returns:
  assumes "cluster s = Some name"
    and "initializeUpstreamConnectionPool env name False s = Done (Some p) s0"
    and "timeout s \<noteq> None"
  shows "\<exists>s1. doRetry env s = Done () s1"
proof -
  from doRetry_with_pool [OF assms(1,2)] obtain s5 where
    s5: "doRetry env s = setupPerTryTimeout s5" "timeout s5 = timeout s" by blast
  from setupPerTryTimeout_frame [of s5] s5(2) assms(3)
  have "\<not> panicked (setupPerTryTimeout s5)" by auto
  with s5(1) show ?thesis
    by (cases "setupPerTryTimeout s5") auto
qed

lemma doRetry_upstream_events:
  assumes "cluster s = Some name"
    and "initializeUpstreamConnectionPool env name False s = Done (Some p) s0"
  shows "filter isUpstreamEncode (newEvents s (stateOf (doRetry env s))) = retryEvents s \<and>
         downstreamReqDataBuf (stateOf (doRetry env s)) = downstreamReqDataBuf s \<and>
         (\<forall>b. b < nextBuffer s \<longrightarrow> ioBuffers (stateOf (doRetry env s)) b = ioBuffers s b)"
proof -
  from doRetry_with_pool [OF assms(1,2)] obtain s5 where
    s5: "doRetry env s = setupPerTryTimeout s5" "trace s5 = trace s @ retryEvents s"
      "downstreamReqDataBuf s5 = downstreamReqDataBuf s"
      "\<forall>b. b < nextBuffer s \<longrightarrow> ioBuffers s5 b = ioBuffers s b" by blast
  from setupPerTryTimeout_frame [of s5] obtain evs where
    evs: "trace (stateOf (setupPerTryTimeout s5)) = trace s5 @ evs"
      "filter isUpstreamEncode evs = []"
      "downstreamReqDataBuf (stateOf (setupPerTryTimeout s5)) = downstreamReqDataBuf s5"
      "ioBuffers (stateOf (setupPerTryTimeout s5)) = ioBuffers s5" by blast
  have "filter isUpstreamEncode (retryEvents s) = retryEvents s"
    by (simp add: retryEvents_def split: option.splits)
  with s5 evs show ?thesis
    by (simp add: newEvents_def)
qed

lemma onUpstreamReset_gate:
  assumes "downstreamResponseStarted s" and "upstreamRequestSent s" and "retryState s = Some r"
    and "urtype \<noteq> UpstreamGlobalTimeout" and "retryCheck env r None reason = ShouldRetry"
  shows "onUpstreamReset env urtype reason s =
           Done () (s\<lparr>retryState := Some (r\<lparr>retryScheduled := True\<rparr>), upstreamRequest := None\<rparr>)"
  using assms
  by (simp add: onUpstreamReset_def retry_def setupRetry_def andThen_def Let_def)

text \<open>
  A hijack reply on a stream that has no upstream request and whose request is received
  to its end panics in \<^verbatim>\<open>cleanUp\<close>, whatever the code and the headers; when the request
  is not received to its end the stream resets the downstream stream, and the reset
  callback panics in the same place.
\<close>

lemma sendHijackReply_without_upstream_panics:
  assumes "upstreamRequest s = None" and "downstreamRecvDone s" and "responseEncoder s \<noteq> None"
    and "\<not> encodeHeaderFilters env None (Some (statusHeaders env code hs)) True"
  shows "\<exists>s1. sendHijackReply env code hs s = Panic NilPointerDereference s1"
  using assms
  by (auto simp: statusHeaders_def hijack_defs split: option.splits)

lemma OnResetStream_without_upstream_panics:
  "upstreamRequest s = None \<Longrightarrow> \<exists>s1. OnResetStream env reason s = Panic NilPointerDereference s1"
  by (simp add: OnResetStream_def cleanStream_def cleanUp_def andThen_def emit_def)

text \<open>
  The methods on the way from \<^verbatim>\<open>onUpstreamReset\<close> to the end of the stream do not ask the
  retry policy, so before the response has started \<^verbatim>\<open>onUpstreamReset\<close> does the same
  under every policy.
\<close>

lemma cleanStream_retryCheck: "cleanStream (env\<lparr>retryCheck := c\<rparr>) = cleanStream env"
  by (simp add: cleanStream_def fun_eq_iff)

lemma endStream_retryCheck: "endStream (env\<lparr>retryCheck := c\<rparr>) = endStream env"
  by (simp add: endStream_def fun_eq_iff cleanStream_retryCheck)

lemma doEncodeHeaders_retryCheck:
  "doEncodeHeaders (env\<lparr>retryCheck := c\<rparr>) = doEncodeHeaders env"
  by (simp add: doEncodeHeaders_def fun_eq_iff endStream_retryCheck Let_def
      cong: option.case_cong if_cong)

lemma sendHijackReply_retryCheck:
  "sendHijackReply (env\<lparr>retryCheck := c\<rparr>) = sendHijackReply env"
  by (simp add: sendHijackReply_def encodeHeaders_def fun_eq_iff doEncodeHeaders_retryCheck)

lemma onUpstreamReset_before_response_started:
  "\<not> downstreamResponseStarted s \<Longrightarrow>
   onUpstreamReset (env\<lparr>retryCheck := c\<rparr>) urtype reason s = onUpstreamReset env urtype reason s"
  by (simp add: onUpstreamReset_def resetStream_def endStream_retryCheck
        sendHijackReply_retryCheck cong: if_cong)

text \<open>
  A response with a status that the policy retries: the stream sets up the retry, and a
  fire of the per-try timer before the retry runs panics.
\<close>

lemma perTry_timer_fire_during_backoff:
  "\<exists>s1 s2. onUpstreamHeaders (sampleEnv\<lparr>retryCheck := (\<lambda>r hs reason. ShouldRetry)\<rparr>)
              (Some [''status'' \<mapsto> ''503'']) True sentStream = Done () s1 \<and>
           perRetryTimer s1 = Some (Timer PerTryTimeoutCallback 1000000000) \<and>
           onPerTryTimeout (sampleEnv\<lparr>retryCheck := (\<lambda>r hs reason. ShouldRetry)\<rparr>) s1 =
             Panic NilPointerDereference s2"
  by (simp add: onUpstreamHeaders_def onPerTryTimeout_def retry_def setupRetry_def andThen_def
        Let_def emit_def sample_defs)

lemma sendHijackReply_isHijackReply:
  "isHijackReply env code hs s (sendHijackReply env code hs s)"
  by (auto simp: isHijackReply_def statusHeaders_def newEvents_def hijack_defs
      split: option.splits)

lemma sendHijackReply_noUpstreamAttempt:
  "noUpstreamAttempt s (stateOf (sendHijackReply env code hs s))"
  by (auto simp: noUpstreamAttempt_def newEvents_def hijack_defs
      split: option.splits)

lemma decodeStep_dropped:
  "localProcessDone s \<Longrightarrow>
   \<exists>s1. decodeStep env ev s = Done () s1 \<and> localProcessDone s1 \<and> trace s1 = trace s \<and>
        upstreamRequest s1 = upstreamRequest s \<and>
        downstreamReqDataBuf s1 = downstreamReqDataBuf s \<and>
        downstreamReqTrailers s1 = downstreamReqTrailers s \<and>
        ioBuffers s1 = ioBuffers s"
  by (cases ev)
     (simp_all add: OnDecodeData_def doDecodeData_def OnDecodeTrailers_def doDecodeTrailers_def)

subsection \<open>doRetry: the end-of-stream flag of the re-encoded headers\<close>

text \<open>
  C1. After a pool has been acquired and a new upstream request allocated, the headers
  should be re-encoded with end of stream exactly when there is neither a buffered body
  nor trailers. The source passes \<^verbatim>\<open>downstreamReqDataBuf != nil && downstreamReqTrailers != nil\<close>
  (lemma \<open>doRetry_upstream_events\<close> with \<open>retryEvents\<close>): on the retry of a request
  that had headers only, the headers go upstream without end of stream, and nothing
  follows them.
\<close>

theorem doRetry_headers_only_request:
  "downstreamReqDataBuf retryingStream = None \<and>
   downstreamReqTrailers retryingStream = None \<and>
   doRetry sampleEnv retryingStream =
     Done () (retryingStream
       \<lparr>upstreamRequest := Some \<lparr>connPool = 0, requestEncoder = None, host = None\<rparr>,
        trace := [UpstreamEncodeHeaders (Some [''service'' \<mapsto> ''hello'']) False,
                  TimerStop (Timer PerTryTimeoutCallback 1000000000),
                  TimerStart (Timer PerTryTimeoutCallback 1000000000)]\<rparr>)"
  by (simp add: sample_defs method_defs word_sless_alt)

subsection \<open>onUpstreamReset: the retry gate\<close>

text \<open>
  C2. An upstream reset after the response headers went downstream should not be retried:
  the stream should clean up and reset the downstream response. The source consults the
  retry state exactly when \<^verbatim>\<open>downstreamResponseStarted\<close> is set (lemma
  \<open>onUpstreamReset_gate\<close>). Here the upstream answers with status 200, the headers go
  downstream, and the upstream resets: the stream sets up a retry and returns, with the
  timers running, nothing cleaned up and no reset of the downstream stream.
\<close>

theorem onUpstreamReset_after_response_started:
  "andThen (onUpstreamHeaders resetRetryEnv (Some [''status'' \<mapsto> ''200'']) False sentStream)
     (\<lambda>_. onUpstreamReset resetRetryEnv UpstreamReset ''ConnectionTermination'') =
   Done () (sentStream
     \<lparr>retryState := Some \<lparr>retryOn = True, retryScheduled = True\<rparr>,
      upstreamRequest := None,
      downstreamRespHeaders := Some [''status'' \<mapsto> ''200''],
      downstreamResponseStarted := True,
      trace := [SetResponseReceivedDuration,
                DownstreamEncodeHeaders (Some [''status'' \<mapsto> ''200'']) False]\<rparr>)"
  by (simp add: sample_defs method_defs)

subsection \<open>cleanUp on a stream without an upstream request\<close>

text \<open>
  C3. \<^verbatim>\<open>cleanUp\<close> should complete on every terminal path, also for a hijack reply before
  any upstream attempt. Its first statement writes through \<^verbatim>\<open>upstreamRequest\<close> without a
  nil check (lemma \<open>cleanUp_nil_upstreamRequest\<close>), although \<^verbatim>\<open>cleanStream\<close> has
  checked the same pointer one statement earlier. A new stream whose headers end the
  request and match no route sends the hijack reply downstream and then panics in
  \<^verbatim>\<open>cleanUp\<close>, before the filters are destroyed and the stream is deleted.
\<close>

theorem hijack_before_upstream_panics:
  "\<exists>s. andThen (newActiveStream (Some 7) zeroStream)
          (\<lambda>_. OnDecodeHeaders noRouteEnv (Some [''service'' \<mapsto> ''hello'']) True) =
        Panic NilPointerDereference s \<and>
        upstreamRequest s = None \<and> retryState s = None \<and>
        trace s =
          [AddEventListener,
           DownstreamRequestTotalInc ProxyStats, DownstreamRequestActiveInc ProxyStats,
           DownstreamRequestTotalInc ListenerStats, DownstreamRequestActiveInc ListenerStats,
           SetResponseFlag NoRouteFound,
           DownstreamEncodeHeaders
             (Some [''service'' \<mapsto> ''hello'', ''x-mosn-status'' \<mapsto> ''404'']) True,
           DownstreamRequestActiveDec ProxyStats, DownstreamRequestActiveDec ListenerStats]"
  by (simp add: sample_defs method_defs Itoa_404)

subsection \<open>cleanUp is idempotent\<close>



subsection \<open>setupRetry\<close>

text \<open>
  C5. \<^verbatim>\<open>setupRetry\<close> returns true exactly when the upstream request has been sent.
  When it returns true it has reset the upstream stream of the attempt if that stream had
  not ended (\<^verbatim>\<open>endStream\<close> false), and the stream holds no upstream request any more;
  when it returns false it has changed nothing. It returns whenever there is an upstream
  request to reset or none has to be reset.
\<close>

theorem setupRetry_result:
  "(\<forall>b s1. setupRetry e s = Done b s1 \<longrightarrow> b = upstreamRequestSent s) \<and>
   (\<not> upstreamRequestSent s \<longrightarrow> setupRetry e s = Done False s) \<and>
   (upstreamRequestSent s \<and> (e \<or> upstreamRequest s \<noteq> None) \<longrightarrow>
      setupRetry e s =
        Done True (s\<lparr>upstreamRequest := None,
                     trace := trace s @ (if e then [] else [UpstreamResetStream])\<rparr>))"
  by (auto simp: setupRetry_def andThen_def upstreamRequest_resetStream_def emit_def
      split: option.splits if_splits)

theorem setupRetry_result_witness:
  "upstreamRequestSent sentStream \<and>
   setupRetry False sentStream =
     Done True (sentStream\<lparr>upstreamRequest := None, trace := [UpstreamResetStream]\<rparr>) \<and>
   setupRetry False bodyStream = Done False bodyStream"
  using setupRetry_result [of False sentStream] setupRetry_result [of False bodyStream]
  by (simp add: sample_defs)

subsection \<open>endStream\<close>

text \<open>
  C6. If the response encoder exists and the downstream request is not received to its
  end, or the local processing is not done, \<^verbatim>\<open>endStream\<close> marks the local processing
  done and resets the downstream stream with the local reset reason, and that is all it
  does: nothing of \<^verbatim>\<open>cleanStream\<close> happens in the call. In every other case it is
  \<^verbatim>\<open>cleanStream\<close>.
\<close>

theorem endStream_cases:
  "endStream env s =
     (if responseEncoder s \<noteq> None \<and> (\<not> downstreamRecvDone s \<or> \<not> localProcessDone s)
      then Done () (s\<lparr>localProcessDone := True,
                      trace := trace s @ [DownstreamResetStream (StreamLocalReset env)]\<rparr>)
      else cleanStream env s)"
  by (simp add: endStream_def emit_def)

theorem endStream_cases_witness:
  "endStream sampleEnv sentStream =
     Done () (sentStream\<lparr>localProcessDone := True,
                trace := [DownstreamResetStream ''StreamLocalReset'']\<rparr>) \<and>
   endStream sampleEnv hijackedStream = cleanStream sampleEnv hijackedStream"
  using endStream_cases [of sampleEnv sentStream] endStream_cases [of sampleEnv hijackedStream]
  by (simp add: sample_defs)

subsection \<open>The request body: retained or forwarded\<close>

text \<open>
  C7. A data event that arrives when the local processing is done is dropped: the stream
  is left as it was, so the event is neither forwarded nor retained. For every data event
  that arrives when the local processing is not done and that \<^verbatim>\<open>doDecodeData\<close> forwards
  to the upstream, in the state in which the decoder filters have left the stream: the
  event is forwarded once, with its bytes; when a retry is possible (a retry state with
  \<^verbatim>\<open>retryOn\<close>), what goes upstream is a fresh clone, not the buffer of the event, and
  the bytes are retained in \<^verbatim>\<open>downstreamReqDataBuf\<close>, after what it held before (or the
  buffer of the event is \<^verbatim>\<open>downstreamReqDataBuf\<close> itself); otherwise the buffer of the
  event itself goes upstream and \<^verbatim>\<open>downstreamReqDataBuf\<close> and all buffers stay as they
  were. An event that has passed the filters is forwarded when the stream has its upstream
  request and its timeouts. In \<^verbatim>\<open>doRetry\<close> with a pool, every data event that goes
  upstream is a fresh clone with the bytes of the buffered body, and the buffered body is
  kept unchanged for a later retry.
\<close>

theorem request_body_retained_iff_retry_possible:
  "(localProcessDone s \<longrightarrow> doDecodeData env f data e s = Done () s) \<and>
   (\<not> localProcessDone s \<and> decodeDataFilters env f data e s = (False, s0) \<and>
    upstreamRequest s0 \<noteq> None \<and> timeout s0 \<noteq> None \<longrightarrow>
      (\<exists>s2 c2 bs2. doDecodeData env f data e s = Done () s2 \<and>
         UpstreamEncodeData c2 bs2 e \<in> set (newEvents s0 s2))) \<and>
   (\<not> localProcessDone s \<and> decodeDataFilters env f data e s = (stopped, s0) \<and>
    UpstreamEncodeData c bs es \<in> set (newEvents s0 (stateOf (doDecodeData env f data e s))) \<and>
    data < nextBuffer s0 \<and> (\<forall>b. downstreamReqDataBuf s0 = Some b \<longrightarrow> b < nextBuffer s0) \<longrightarrow>
      bs = ioBuffers s0 data \<and> es = e \<and>
      filter isUpstreamEncode (newEvents s0 (stateOf (doDecodeData env f data e s))) =
        [UpstreamEncodeData c bs es] \<and>
      (retryPossible s0 \<longrightarrow>
         c = nextBuffer s0 \<and> c \<noteq> data \<and>
         (\<exists>buf. downstreamReqDataBuf (stateOf (doDecodeData env f data e s)) = Some buf \<and>
            buf \<noteq> c \<and>
            ioBuffers (stateOf (doDecodeData env f data e s)) buf =
              (if downstreamReqDataBuf s0 = Some data then ioBuffers s0 data
               else (case downstreamReqDataBuf s0 of None \<Rightarrow> [] | Some b \<Rightarrow> ioBuffers s0 b) @
                    ioBuffers s0 data))) \<and>
      (\<not> retryPossible s0 \<longrightarrow>
         c = data \<and>
         downstreamReqDataBuf (stateOf (doDecodeData env f data e s)) = downstreamReqDataBuf s0 \<and>
         ioBuffers (stateOf (doDecodeData env f data e s)) = ioBuffers s0)) \<and>
   (cluster r = Some name \<and>
    initializeUpstreamConnectionPool env name False r = Done (Some p) r0 \<and>
    downstreamReqDataBuf r = Some b \<and> b < nextBuffer r \<longrightarrow>
      nextBuffer r \<noteq> b \<and>
      (\<forall>c bs es. UpstreamEncodeData c bs es \<in> set (newEvents r (stateOf (doRetry env r))) \<longrightarrow>
         c = nextBuffer r \<and> bs = ioBuffers r b) \<and>
      downstreamReqDataBuf (stateOf (doRetry env r)) = Some b \<and>
      ioBuffers (stateOf (doRetry env r)) b = ioBuffers r b)"
proof (intro conjI impI)
  assume "localProcessDone s"
  then show "doDecodeData env f data e s = Done () s"
    by (simp add: doDecodeData_def)
next
  assume "\<not> localProcessDone s \<and> decodeDataFilters env f data e s = (False, s0) \<and>
    upstreamRequest s0 \<noteq> None \<and> timeout s0 \<noteq> None"
  then show "\<exists>s2 c2 bs2. doDecodeData env f data e s = Done () s2 \<and>
         UpstreamEncodeData c2 bs2 e \<in> set (newEvents s0 s2)"
    using doDecodeData_forwards [of s env f data e s0] by blast
next
  assume h: "\<not> localProcessDone s \<and> decodeDataFilters env f data e s = (stopped, s0) \<and>
    UpstreamEncodeData c bs es \<in> set (newEvents s0 (stateOf (doDecodeData env f data e s))) \<and>
    data < nextBuffer s0 \<and> (\<forall>b. downstreamReqDataBuf s0 = Some b \<longrightarrow> b < nextBuffer s0)"
  then have lpd: "\<not> localProcessDone s"
    and fl: "decodeDataFilters env f data e s = (stopped, s0)"
    and ev: "UpstreamEncodeData c bs es
               \<in> set (newEvents s0 (stateOf (doDecodeData env f data e s)))"
    and al: "data < nextBuffer s0" "\<forall>b. downstreamReqDataBuf s0 = Some b \<longrightarrow> b < nextBuffer s0"
    by simp_all
  from doDecodeData_forwarded_returns [OF lpd fl ev] obtain s1 where
    ns: "\<not> stopped" and run: "doDecodeData env f data e s = Done () s1"
    by auto
  from fl ns have fl0: "decodeDataFilters env f data e s = (False, s0)" by simp
  note fw = doDecodeData_forward [OF lpd fl0 run al]
  from ev run have mem: "UpstreamEncodeData c bs es \<in> set (newEvents s0 s1)" by simp
  then have memf: "UpstreamEncodeData c bs es \<in> set (filter isUpstreamEncode (newEvents s0 s1))"
    by simp
  have flt: "filter isUpstreamEncode (newEvents s0 s1) =
               [UpstreamEncodeData (if retryPossible s0 then nextBuffer s0 else data)
                  (ioBuffers s0 data) e]"
    using fw by (cases "retryPossible s0") auto
  from memf [unfolded flt]
  have eqs: "c = (if retryPossible s0 then nextBuffer s0 else data)" "bs = ioBuffers s0 data"
    "es = e"
    by simp_all
  have shape: "c = (if retryPossible s0 then nextBuffer s0 else data) \<and>
               bs = ioBuffers s0 data \<and> es = e \<and>
               filter isUpstreamEncode (newEvents s0 s1) = [UpstreamEncodeData c bs es]"
    using flt eqs by simp
  from shape show "bs = ioBuffers s0 data" by simp
  from shape show "es = e" by simp
  from shape run show "filter isUpstreamEncode
      (newEvents s0 (stateOf (doDecodeData env f data e s))) = [UpstreamEncodeData c bs es]"
    by simp
  {
    assume rp: "retryPossible s0"
    from rp shape show "c = nextBuffer s0" by simp
    from rp shape al show "c \<noteq> data" by simp
    from rp fw shape run
    show "\<exists>buf. downstreamReqDataBuf (stateOf (doDecodeData env f data e s)) = Some buf \<and>
            buf \<noteq> c \<and>
            ioBuffers (stateOf (doDecodeData env f data e s)) buf =
              (if downstreamReqDataBuf s0 = Some data then ioBuffers s0 data
               else (case downstreamReqDataBuf s0 of None \<Rightarrow> [] | Some b \<Rightarrow> ioBuffers s0 b) @
                    ioBuffers s0 data)"
      by auto
  }
  {
    assume np: "\<not> retryPossible s0"
    from np shape show "c = data" by simp
    from np fw run
    show "downstreamReqDataBuf (stateOf (doDecodeData env f data e s)) = downstreamReqDataBuf s0"
      by simp
    from np fw run show "ioBuffers (stateOf (doDecodeData env f data e s)) = ioBuffers s0"
      by simp
  }
next
  assume h: "cluster r = Some name \<and>
    initializeUpstreamConnectionPool env name False r = Done (Some p) r0 \<and>
    downstreamReqDataBuf r = Some b \<and> b < nextBuffer r"
  then have c: "cluster r = Some name"
    and i: "initializeUpstreamConnectionPool env name False r = Done (Some p) r0"
    and d: "downstreamReqDataBuf r = Some b" and a: "b < nextBuffer r"
    by simp_all
  note ev = doRetry_upstream_events [OF c i]
  have sets: "set (filter isUpstreamEncode (newEvents r (stateOf (doRetry env r)))) =
              set (retryEvents r)"
    using ev by simp
  from a show "nextBuffer r \<noteq> b" by simp
  show "\<forall>c bs es. UpstreamEncodeData c bs es \<in> set (newEvents r (stateOf (doRetry env r))) \<longrightarrow>
         c = nextBuffer r \<and> bs = ioBuffers r b"
  proof (intro allI impI)
    fix c bs es
    assume "UpstreamEncodeData c bs es \<in> set (newEvents r (stateOf (doRetry env r)))"
    then have "UpstreamEncodeData c bs es \<in> set (retryEvents r)"
      using sets by auto
    then show "c = nextBuffer r \<and> bs = ioBuffers r b"
      using d by (auto simp: retryEvents_def split: option.splits)
  qed
  from ev d show "downstreamReqDataBuf (stateOf (doRetry env r)) = Some b" by simp
  from ev a show "ioBuffers (stateOf (doRetry env r)) b = ioBuffers r b" by simp
qed

theorem request_body_retained_iff_retry_possible_witness:
  "retryPossible bodyStream \<and>
   (\<exists>s1 buf. doDecodeData sampleEnv None 0 True bodyStream = Done () s1 \<and>
      downstreamReqDataBuf s1 = Some buf \<and> buf \<noteq> 1 \<and> ioBuffers s1 buf = [1, 2, 3] \<and>
      filter isUpstreamEncode (newEvents bodyStream s1) =
        [UpstreamEncodeData 1 [1, 2, 3] True]) \<and>
   UpstreamEncodeData 1 [1, 2, 3] True
     \<in> set (newEvents bufferedStream (stateOf (doRetry sampleEnv bufferedStream))) \<and>
   downstreamReqDataBuf (stateOf (doRetry sampleEnv bufferedStream)) = Some 0 \<and>
   ioBuffers (stateOf (doRetry sampleEnv bufferedStream)) 0 = [1, 2, 3]"
proof -
  note claim = request_body_retained_iff_retry_possible
    [where s = bodyStream and env = sampleEnv and f = None and data = 0 and e = True
       and ?s0.0 = bodyStream and stopped = False
       and r = bufferedStream and name = "''server_1''" and p = 0
       and ?r0.0 = "bufferedStream\<lparr>cluster := Some ''server_1''\<rparr>" and b = 0]
  have rp: "retryPossible bodyStream"
    by (simp add: retryPossible_def sample_defs)
  have gates: "\<not> localProcessDone bodyStream"
    "decodeDataFilters sampleEnv None 0 True bodyStream = (False, bodyStream)"
    "upstreamRequest bodyStream \<noteq> None" "timeout bodyStream \<noteq> None"
    "0 < nextBuffer bodyStream"
    "\<forall>b. downstreamReqDataBuf bodyStream = Some b \<longrightarrow> b < nextBuffer bodyStream"
    by (simp_all add: sample_defs)
  have vals: "nextBuffer bodyStream = 1" "ioBuffers bodyStream 0 = [1, 2, 3]"
    "downstreamReqDataBuf bodyStream = None"
    by (simp_all add: sample_defs)
  note forwards = claim [THEN conjunct2, THEN conjunct1]
  note retried = claim [THEN conjunct2, THEN conjunct2, THEN conjunct2]
  from forwards gates obtain s2 c2 bs2 where
    run: "doDecodeData sampleEnv None 0 True bodyStream = Done () s2" and
    mem: "UpstreamEncodeData c2 bs2 True \<in> set (newEvents bodyStream s2)"
    by blast
  from mem run have mem': "UpstreamEncodeData c2 bs2 True
      \<in> set (newEvents bodyStream (stateOf (doDecodeData sampleEnv None 0 True bodyStream)))"
    by simp
  note forwarded = request_body_retained_iff_retry_possible
    [where s = bodyStream and env = sampleEnv and f = None and data = 0 and e = True
       and ?s0.0 = bodyStream and stopped = False and c = c2 and bs = bs2 and es = True,
     THEN conjunct2, THEN conjunct2, THEN conjunct1]
  from forwarded gates mem' rp
  have res: "bs2 = ioBuffers bodyStream 0"
    "filter isUpstreamEncode
       (newEvents bodyStream (stateOf (doDecodeData sampleEnv None 0 True bodyStream))) =
       [UpstreamEncodeData c2 bs2 True]"
    "c2 = nextBuffer bodyStream"
    "\<exists>buf. downstreamReqDataBuf (stateOf (doDecodeData sampleEnv None 0 True bodyStream)) =
             Some buf \<and> buf \<noteq> c2 \<and>
           ioBuffers (stateOf (doDecodeData sampleEnv None 0 True bodyStream)) buf =
             (if downstreamReqDataBuf bodyStream = Some 0 then ioBuffers bodyStream 0
              else (case downstreamReqDataBuf bodyStream of
                      None \<Rightarrow> [] | Some b \<Rightarrow> ioBuffers bodyStream b) @
                   ioBuffers bodyStream 0)"
    by blast+
  from res run vals
  have first: "\<exists>s1 buf. doDecodeData sampleEnv None 0 True bodyStream = Done () s1 \<and>
      downstreamReqDataBuf s1 = Some buf \<and> buf \<noteq> 1 \<and> ioBuffers s1 buf = [1, 2, 3] \<and>
      filter isUpstreamEncode (newEvents bodyStream s1) =
        [UpstreamEncodeData 1 [1, 2, 3] True]"
    by auto
  have pool: "cluster bufferedStream = Some ''server_1''"
    "initializeUpstreamConnectionPool sampleEnv ''server_1'' False bufferedStream =
       Done (Some 0) (bufferedStream\<lparr>cluster := Some ''server_1''\<rparr>)"
    "downstreamReqDataBuf bufferedStream = Some 0" "0 < nextBuffer bufferedStream"
    by (simp_all add: sample_defs initializeUpstreamConnectionPool_def Let_def)
  have rvals: "ioBuffers bufferedStream 0 = [1, 2, 3]"
    by (simp add: sample_defs)
  have sent: "UpstreamEncodeData 1 [1, 2, 3] True
     \<in> set (newEvents bufferedStream (stateOf (doRetry sampleEnv bufferedStream)))"
    by (simp add: sample_defs method_defs newEvents_def word_sless_alt)
  from retried pool rvals
  have kept: "downstreamReqDataBuf (stateOf (doRetry sampleEnv bufferedStream)) = Some 0 \<and>
   ioBuffers (stateOf (doRetry sampleEnv bufferedStream)) 0 = [1, 2, 3]"
    by simp
  from rp first sent kept show ?thesis by blast
qed

text \<open>
  Without the condition on the local processing the statement fails: on a stream whose
  local processing is done, a data event of three bytes is neither retained nor forwarded,
  in a clone or itself, although the retry state allows a retry. The stream only counts
  the bytes.
\<close>

theorem dropped_data_event_not_retained:
  "retryPossible droppedBodyStream \<and>
   ioBuffers droppedBodyStream 0 = [1, 2, 3] \<and>
   downstreamReqDataBuf droppedBodyStream = None \<and>
   OnDecodeData sampleEnv 0 True droppedBodyStream =
     Done () (droppedBodyStream\<lparr>bytesReceived := 3, downstreamRecvDone := True\<rparr>)"
  by (simp add: retryPossible_def OnDecodeData_def doDecodeData_def sample_defs)

subsection \<open>Decode events after the local processing is done\<close>

text \<open>
  C8. Once \<^verbatim>\<open>localProcessDone\<close> is set, every sequence of later decode events (data and
  trailers, from the codec or from a decoder filter that continues) is dropped: each event
  returns, the stream makes no call at all on a collaborator, so nothing is forwarded to
  the upstream, nothing is buffered, and \<^verbatim>\<open>localProcessDone\<close> is still set after each
  of them.
\<close>

theorem late_decode_events_dropped:
  "localProcessDone s \<Longrightarrow>
   \<exists>s1. decodeAll env evs s = Done () s1 \<and> localProcessDone s1 \<and> trace s1 = trace s \<and>
        upstreamRequest s1 = upstreamRequest s \<and>
        downstreamReqDataBuf s1 = downstreamReqDataBuf s \<and>
        downstreamReqTrailers s1 = downstreamReqTrailers s \<and>
        ioBuffers s1 = ioBuffers s"
proof (induction evs arbitrary: s)
  case Nil
  then show ?case by simp
next
  case (Cons ev evs)
  from decodeStep_dropped [OF Cons.prems, of env ev] obtain s1 where
    step: "decodeStep env ev s = Done () s1" and lpd: "localProcessDone s1" and
    same: "trace s1 = trace s" "upstreamRequest s1 = upstreamRequest s"
      "downstreamReqDataBuf s1 = downstreamReqDataBuf s"
      "downstreamReqTrailers s1 = downstreamReqTrailers s" "ioBuffers s1 = ioBuffers s"
    by blast
  from Cons.IH [OF lpd] obtain s2 where
    rest: "decodeAll env evs s1 = Done () s2" "localProcessDone s2" "trace s2 = trace s1"
      "upstreamRequest s2 = upstreamRequest s1"
      "downstreamReqDataBuf s2 = downstreamReqDataBuf s1"
      "downstreamReqTrailers s2 = downstreamReqTrailers s1" "ioBuffers s2 = ioBuffers s1"
    by blast
  from step rest same show ?case
    by (simp add: andThen_def)
qed

theorem late_decode_events_dropped_witness:
  "localProcessDone hijackedStream \<and>
   (\<exists>s1. decodeAll sampleEnv [DecodeData 0 False, ContinueData 0 0 True, DecodeTrailers None]
            hijackedStream = Done () s1 \<and>
      localProcessDone s1 \<and> trace s1 = [] \<and>
      upstreamRequest s1 = Some \<lparr>connPool = 0, requestEncoder = Some 3, host = None\<rparr> \<and>
      downstreamReqDataBuf s1 = None)"
proof -
  have lpd: "localProcessDone hijackedStream"
    by (simp add: sample_defs)
  have vals: "trace hijackedStream = []"
    "upstreamRequest hijackedStream = Some \<lparr>connPool = 0, requestEncoder = Some 3, host = None\<rparr>"
    "downstreamReqDataBuf hijackedStream = None"
    by (simp_all add: sample_defs)
  from late_decode_events_dropped [OF lpd, of sampleEnv
      "[DecodeData 0 False, ContinueData 0 0 True, DecodeTrailers None]"] vals lpd
  show ?thesis by auto
qed

subsection \<open>OnDecodeError\<close>

text \<open>
  C9. With distinct names for the two exceptions, \<^verbatim>\<open>OnDecodeError\<close> answers a codec
  exception with a hijack reply of the codec exception code, a deserialize exception with
  one of the deserialize exception code, and any other error with one of the unknown code,
  each written under the status name into the headers of the reply. In every case, and
  whether or not the call returns, the stream makes no encode call on the upstream and
  creates no upstream request: a stream without one makes no call on the upstream at all,
  and the request of an attempt under way is at most reset and released.
\<close>

theorem OnDecodeError_hijack:
  assumes "CodecException env \<noteq> DeserializeException env"
  shows "(err = CodecException env \<longrightarrow>
            isHijackReply env (CodecExceptionCode env) hs s (OnDecodeError env err hs s)) \<and>
         (err = DeserializeException env \<longrightarrow>
            isHijackReply env (DeserialExceptionCode env) hs s (OnDecodeError env err hs s)) \<and>
         (err \<noteq> CodecException env \<and> err \<noteq> DeserializeException env \<longrightarrow>
            isHijackReply env (UnknownCode env) hs s (OnDecodeError env err hs s)) \<and>
         noUpstreamAttempt s (stateOf (OnDecodeError env err hs s))"
  using assms
  by (simp add: OnDecodeError_def sendHijackReply_isHijackReply sendHijackReply_noUpstreamAttempt)

theorem OnDecodeError_hijack_witness:
  "CodecException sampleEnv \<noteq> DeserializeException sampleEnv \<and>
   isHijackReply sampleEnv 3 None freshStream
     (OnDecodeError sampleEnv ''deserial exception occurs'' None freshStream) \<and>
   noUpstreamAttempt freshStream
     (stateOf (OnDecodeError sampleEnv ''deserial exception occurs'' None freshStream)) \<and>
   OnDecodeError sampleEnv ''deserial exception occurs'' None freshStream =
     Done () (freshStream
       \<lparr>localProcessDone := True,
        trace := [DownstreamEncodeHeaders (Some [''x-mosn-status'' \<mapsto> ''3'']) True,
                  DownstreamResetStream ''StreamLocalReset'']\<rparr>)"
proof -
  have names: "CodecException sampleEnv \<noteq> DeserializeException sampleEnv"
    "''deserial exception occurs'' = DeserializeException sampleEnv"
    "DeserialExceptionCode sampleEnv = 3"
    by (simp_all add: sampleEnv_def)
  have run: "OnDecodeError sampleEnv ''deserial exception occurs'' None freshStream =
     Done () (freshStream
       \<lparr>localProcessDone := True,
        trace := [DownstreamEncodeHeaders (Some [''x-mosn-status'' \<mapsto> ''3'']) True,
                  DownstreamResetStream ''StreamLocalReset'']\<rparr>)"
    by (simp add: OnDecodeError_def sample_defs hijack_defs Itoa_3)
  from OnDecodeError_hijack [OF names(1), of "''deserial exception occurs''" None freshStream]
    names run
  show ?thesis by metis
qed

subsection \<open>The per-try timer and a released upstream request\<close>

text \<open>
  C10. When the per-try timer fires before the downstream response has started and the
  stream holds no upstream request, \<^verbatim>\<open>onPerTryTimeout\<close> panics on a nil dereference: it
  reads the request without a check. \<^verbatim>\<open>onResponseTimeout\<close> checks: without a request it
  goes on to \<^verbatim>\<open>onUpstreamReset\<close>. When \<^verbatim>\<open>setupRetry\<close> returns true it has released the
  request and has stopped no timer, the handles of both timers are as before, and, the
  response not started, a fire of the per-try timer in that state panics. So the stream is
  safe only if the per-try timer does not fire between \<^verbatim>\<open>setupRetry\<close> and the retry.
\<close>

theorem perTry_timer_needs_upstreamRequest:
  "(\<not> downstreamResponseStarted s \<and> upstreamRequest s = None \<longrightarrow>
      (\<exists>s1. onPerTryTimeout env s = Panic NilPointerDereference s1)) \<and>
   (\<forall>s1. setupRetry e s = Done True s1 \<longrightarrow>
      upstreamRequest s1 = None \<and> perRetryTimer s1 = perRetryTimer s \<and>
      responseTimer s1 = responseTimer s \<and>
      downstreamResponseStarted s1 = downstreamResponseStarted s \<and>
      filter isTimerStop (newEvents s s1) = [] \<and>
      (\<not> downstreamResponseStarted s \<longrightarrow>
         (\<exists>s2. onPerTryTimeout env s1 = Panic NilPointerDereference s2))) \<and>
   (upstreamRequest s = None \<and> cluster s \<noteq> None \<longrightarrow>
      onResponseTimeout env s =
        onUpstreamReset env UpstreamGlobalTimeout (StreamLocalReset env)
          (emit ClusterUpstreamRequestTimeoutInc (s\<lparr>responseTimer := None\<rparr>)))"
  by (auto simp: onPerTryTimeout_def onResponseTimeout_def setupRetry_def andThen_def Let_def
        upstreamRequest_resetStream_def emit_def newEvents_def
      split: option.splits if_splits)

theorem perTry_timer_needs_upstreamRequest_witness:
  "setupRetry True sentStream = Done True retryingStream \<and>
   \<not> downstreamResponseStarted sentStream \<and>
   upstreamRequest retryingStream = None \<and>
   perRetryTimer retryingStream = Some (Timer PerTryTimeoutCallback 1000000000) \<and>
   (\<exists>s2. onPerTryTimeout sampleEnv retryingStream = Panic NilPointerDereference s2)"
proof -
  have run: "setupRetry True sentStream = Done True retryingStream"
    by (simp add: setupRetry_def andThen_def sample_defs)
  have vals: "\<not> downstreamResponseStarted sentStream"
    "perRetryTimer sentStream = Some (Timer PerTryTimeoutCallback 1000000000)"
    by (simp_all add: sample_defs)
  from perTry_timer_needs_upstreamRequest [of sentStream sampleEnv True] run vals
  show ?thesis by auto
qed

end
